theory Spec2Isabelle
  imports Main
begin

section \<open>Data model\<close>

text \<open>
  The repository holds two near-duplicate implementations of the hook
  \<^verbatim>\<open>useHumanChat\<close>: the one in \<^verbatim>\<open>src/unnamed/part_001\<close> (lines 604 to 1205) and
  the one in \<^verbatim>\<open>src/unnamed/part_002\<close> (lines 1 to 866). Definitions that embed a
  function of the first carry the suffix \<open>_p1\<close>, those of the second the suffix
  \<open>_p2\<close>; a definition without suffix embeds code that is the same in both.

  The file \<^verbatim>\<open>types.ts\<close> is not among the sources. The records below list the
  fields that the two hooks read and write; record fields carry a prefix because
  Isabelle record fields are global names (\<open>id\<close>, \<open>status\<close>, \<open>peerId\<close> occur in
  several TypeScript interfaces).
\<close>

text \<open>
  Modelled from the spec: \<^verbatim>\<open>UserProfile\<close> (declared in the absent \<^verbatim>\<open>types.ts\<close>).
  The hooks only read \<^verbatim>\<open>profile.username\<close>.
\<close>

record userProfile =
  username :: string
  age :: string
  gender :: string
  location :: string
  interests :: "string list"

text \<open>\<^verbatim>\<open>RecentPeer = { id, peerId, profile, metAt }\<close> as built by \<^verbatim>\<open>saveToRecent\<close>.\<close>

record recentPeer =
  rp_id :: string
  rp_peerId :: string
  rp_profile :: userProfile
  rp_metAt :: nat

text \<open>\<^verbatim>\<open>Friend = { id, profile, addedAt, lastSeen }\<close> as built by \<^verbatim>\<open>saveFriend\<close>.\<close>

record friend =
  f_id :: string
  f_profile :: userProfile
  f_addedAt :: nat
  f_lastSeen :: nat

text \<open>\<^verbatim>\<open>FriendRequest = { profile, peerId }\<close>.\<close>

record friendRequest =
  fr_profile :: userProfile
  fr_peerId :: string

text \<open>
  The two keys of \<^verbatim>\<open>localStorage\<close> that the hooks write. \<open>None\<close> is the key
  being absent (\<^verbatim>\<open>getItem\<close> returns \<^verbatim>\<open>null\<close>); the stored value is kept parsed,
  since every write is a \<^verbatim>\<open>JSON.stringify\<close> of such a list.
\<close>

record localStorage =
  recent_peers :: "recentPeer list option"
  chat_friends :: "friend list option"

section \<open>Rendering the clock\<close>

text \<open>
  \<^verbatim>\<open>Date.now().toString()\<close>: the decimal digits of a non-negative integer number of
  milliseconds.
\<close>

definition digit :: "nat \<Rightarrow> char" where
  "digit d = ''0123456789'' ! (d mod 10)"

function toString :: "nat \<Rightarrow> string" where
  "toString n = (if n < 10 then [digit n] else toString (n div 10) @ [digit (n mod 10)])"
  by pat_completeness auto
termination
  by (relation "measure (\<lambda>n. n)") auto

declare toString.simps [simp del]

section \<open>Persistence of recent peers\<close>

text \<open>
  Reading the list: \<^verbatim>\<open>existing ? JSON.parse(existing) : []\<close> with
  \<^verbatim>\<open>existing = localStorage.getItem('recent_peers')\<close>.
\<close>

definition recents_of :: "localStorage \<Rightarrow> recentPeer list" where
  "recents_of ls = (case recent_peers ls of None \<Rightarrow> [] | Some r \<Rightarrow> r)"

text \<open>
  \<^verbatim>\<open>saveToRecent\<close>, part_001 lines 828 to 838. The argument \<open>setItem_ok\<close> is
  whether \<^verbatim>\<open>localStorage.setItem\<close> succeeds; when it throws (quota exceeded) the
  surrounding \<^verbatim>\<open>try/catch\<close> swallows the exception and the store is unchanged.
  \<open>now\<close> is the value of \<^verbatim>\<open>Date.now()\<close>, read once for the whole call.
\<close>

definition saveToRecent_p1 ::
  "bool \<Rightarrow> nat \<Rightarrow> userProfile \<Rightarrow> string \<Rightarrow> localStorage \<Rightarrow> localStorage" where
  "saveToRecent_p1 setItem_ok now profile peerId ls =
     (let recents = recents_of ls;
          newPeer = \<lparr>rp_id = toString now, rp_peerId = peerId,
                     rp_profile = profile, rp_metAt = now\<rparr>;
          recents = filter (\<lambda>p. username (rp_profile p) \<noteq> username profile) recents;
          recents = newPeer # recents
      in if setItem_ok then ls\<lparr>recent_peers := Some (take 20 recents)\<rparr> else ls)"

text \<open>
  \<^verbatim>\<open>saveToRecent\<close>, part_002 lines 95 to 120: the same steps, the slice taken
  before the write.
\<close>

definition saveToRecent_p2 ::
  "bool \<Rightarrow> nat \<Rightarrow> userProfile \<Rightarrow> string \<Rightarrow> localStorage \<Rightarrow> localStorage" where
  "saveToRecent_p2 setItem_ok now profile peerId ls =
     (let recents = recents_of ls;
          newPeer = \<lparr>rp_id = toString now, rp_peerId = peerId,
                     rp_profile = profile, rp_metAt = now\<rparr>;
          recents = filter (\<lambda>p. username (rp_profile p) \<noteq> username profile) recents;
          recents = newPeer # recents;
          recents = take 20 recents
      in if setItem_ok then ls\<lparr>recent_peers := Some recents\<rparr> else ls)"

text \<open>
  The shape the claims give the recent-peers list: at most 20 entries, no two
  entries with the same username, newest first (\<^verbatim>\<open>metAt\<close> descending).
\<close>

definition recents_inv :: "recentPeer list \<Rightarrow> bool" where
  "recents_inv rs \<longleftrightarrow>
     length rs \<le> 20 \<and>
     distinct (map (\<lambda>p. username (rp_profile p)) rs) \<and>
     sorted_wrt (\<lambda>p q. rp_metAt q \<le> rp_metAt p) rs"

section \<open>Wire protocol and chat history\<close>

datatype sender = Me | Stranger | System

datatype msgType = TText | TImage | TAudio

datatype msgStatus = Sent | Seen

record reaction =
  r_emoji :: string
  r_sender :: sender

text \<open>
  \<^verbatim>\<open>Message\<close>. The optional fields \<^verbatim>\<open>text\<close>, \<^verbatim>\<open>fileData\<close>, \<^verbatim>\<open>reactions\<close> and
  \<^verbatim>\<open>status\<close> are options (\<open>None\<close> is \<^verbatim>\<open>undefined\<close>); \<^verbatim>\<open>isEdited\<close> is a flag
  whose absence reads as false.
\<close>

record message =
  m_id :: string
  m_sender :: sender
  m_timestamp :: nat
  m_type :: msgType
  m_text :: "string option"
  m_fileData :: "string option"
  m_reactions :: "reaction list option"
  m_status :: "msgStatus option"
  m_isEdited :: bool

text \<open>
  The envelope \<^verbatim>\<open>PeerData = { type, payload, dataType?, id?, messageId? }\<close>, one
  constructor for each value of \<^verbatim>\<open>type\<close> that \<^verbatim>\<open>handleIncomingData\<close> tests, with
  the fields that its branch reads: the payload with the type the senders of the
  hooks give it, and the optional \<^verbatim>\<open>dataType\<close>, \<^verbatim>\<open>id\<close> and \<^verbatim>\<open>messageId\<close>
  (\<open>None\<close> is an absent field). \<open>EOther\<close> is any other value of \<^verbatim>\<open>type\<close>.
\<close>

datatype peerData =
    EMessage string "msgType option" "string option"
  | ESeen "string option"
  | ETyping bool
  | ERecording bool
  | EProfile userProfile
  | EVanishMode bool
  | EReaction string "string option"
  | EEditMessage string "string option"
  | EFriendRequest userProfile
  | EFriendAccept userProfile
  | EDisconnect
  | EOther string

text \<open>JavaScript truthiness of an optional string: \<^verbatim>\<open>undefined\<close> and \<^verbatim>\<open>""\<close> are falsy.\<close>

definition truthy :: "string option \<Rightarrow> bool" where
  "truthy s = (case s of None \<Rightarrow> False | Some v \<Rightarrow> v \<noteq> [])"

section \<open>Presence and connections\<close>

datatype presenceStatus = Idle | Waiting | Busy

text \<open>\<^verbatim>\<open>PresenceState = { peerId, status, timestamp, profile }\<close>.\<close>

record presenceState =
  ps_peerId :: string
  ps_status :: presenceStatus
  ps_timestamp :: int
  ps_profile :: "userProfile option"

datatype chatMode = IDLE | SEARCHING | WAITING | CONNECTED | DISCONNECTED

text \<open>
  A PeerJS \<^verbatim>\<open>DataConnection\<close>: \<open>c_handle\<close> stands for the identity of the object
  (the hooks compare connections with \<^verbatim>\<open>===\<close>), \<open>c_peer\<close> is \<^verbatim>\<open>conn.peer\<close>,
  \<open>c_open\<close> is \<^verbatim>\<open>conn.open\<close>.
\<close>

record dataConnection =
  c_handle :: nat
  c_peer :: string
  c_open :: bool

text \<open>\<^verbatim>\<open>ConnectionMetadata = { type: 'random' | 'direct' }\<close>.\<close>

datatype connectionType = Random | Direct

text \<open>
  What \<^verbatim>\<open>peerRef.current.connect(...)\<close> does when called: it throws, returns
  \<^verbatim>\<open>undefined\<close>, or returns a new connection (identified by its handle).
\<close>

datatype connectResult = Threw | Undefined | Connection nat

text \<open>
  Calls made to the external collaborators (transport and presence channel), in
  the order made.
\<close>

datatype effect =
    Send nat peerData
  | Close nat
  | Connect string "connectionType option"
  | Track presenceState
  | Untrack
  | RemoveChannel

record directMessageEvent =
  dm_peerId :: string
  dm_message :: message

text \<open>
  The state \<^verbatim>\<open>incomingReaction\<close>; part_002 has no \<^verbatim>\<open>peerId\<close> field in it.
\<close>

record reactionEvent =
  re_peerId :: "string option"
  re_messageId :: string
  re_emoji :: string
  re_sender :: sender

datatype statusKind = KTyping | KRecording

record directStatusEvent =
  ds_peerId :: string
  ds_type :: statusKind
  ds_value :: bool

section \<open>State of the hook\<close>

text \<open>
  The React state and the refs of \<^verbatim>\<open>useHumanChat\<close>, the store, and the log of
  effects. \<open>userProfile\<close> is the hook's argument. The refs \<open>peerRef\<close> and
  \<open>channelRef\<close> are kept as "is not null". A timeout ref holds the deadline of
  its pending timer: \<open>None\<close> after \<^verbatim>\<open>clearTimeout\<close>, after the timer has fired, or
  when none was armed. \<open>closeTimers\<close> are the deadlines of the pending delayed
  closes that \<^verbatim>\<open>cleanupMain\<close> arms (they are kept in no ref).
  \<open>activeDirectConnections\<close> exists in part_001 only, \<open>isConnectingRef\<close> in
  part_002 only.
\<close>

record hook =
  userProfile :: "userProfile option"
  messages :: "message list"
  status :: chatMode
  partnerTyping :: bool
  partnerRecording :: bool
  partnerProfile :: "userProfile option"
  remoteVanishMode :: "bool option"
  partnerPeerId :: "string option"
  onlineUsers :: "presenceState list"
  myPeerId :: "string option"
  error :: "string option"
  incomingDirectMessage :: "directMessageEvent option"
  incomingReaction :: "reactionEvent option"
  incomingDirectStatus :: "directStatusEvent option"
  activeDirectConnections :: "string set"
  friends :: "friend list"
  friendRequests :: "friendRequest list"
  peerRef :: bool
  mainConnRef :: "dataConnection option"
  directConnsRef :: "string \<rightharpoonup> dataConnection"
  channelRef :: bool
  myPeerIdRef :: "string option"
  isMatchmakerRef :: bool
  isConnectingRef :: bool
  connectionTimeoutRef :: "nat option"
  typingTimeoutRef :: "nat option"
  recordingTimeoutRef :: "nat option"
  closeTimers :: "nat list"
  storage :: localStorage
  effects :: "effect list"

text \<open>\<^verbatim>\<open>conn === mainConnRef.current\<close>.\<close>

definition isMain :: "dataConnection \<Rightarrow> hook \<Rightarrow> bool" where
  "isMain conn st =
     (case mainConnRef st of None \<Rightarrow> False | Some c \<Rightarrow> c_handle c = c_handle conn)"

definition emit :: "effect \<Rightarrow> hook \<Rightarrow> hook" where
  "emit e st = st\<lparr>effects := effects st @ [e]\<rparr>"

section \<open>Persistence of friends\<close>

text \<open>
  Reading the list: \<^verbatim>\<open>existing ? JSON.parse(existing) : []\<close> with
  \<^verbatim>\<open>existing = localStorage.getItem('chat_friends')\<close>.
\<close>

definition friends_of :: "localStorage \<Rightarrow> friend list" where
  "friends_of ls = (case chat_friends ls of None \<Rightarrow> [] | Some l \<Rightarrow> l)"

text \<open>
  \<^verbatim>\<open>saveFriend\<close>, part_001 lines 802 to 815 and part_002 lines 123 to 148 (the same
  statements in both). The early \<^verbatim>\<open>return\<close> leaves everything as it was; a
  throwing \<^verbatim>\<open>setItem\<close> skips the two state updates that follow it.
\<close>

definition saveFriend :: "bool \<Rightarrow> nat \<Rightarrow> userProfile \<Rightarrow> string \<Rightarrow> hook \<Rightarrow> hook" where
  "saveFriend setItem_ok now profile peerId st =
     (let friendList = friends_of (storage st)
      in if list_ex (\<lambda>f. f_id f = peerId) friendList then st
         else
           (let newFriend = \<lparr>f_id = peerId, f_profile = profile,
                              f_addedAt = now, f_lastSeen = now\<rparr>;
                friendList = newFriend # friendList
            in if setItem_ok
               then st\<lparr>storage := (storage st)\<lparr>chat_friends := Some friendList\<rparr>,
                       friends := friendList,
                       friendRequests :=
                         filter (\<lambda>req. fr_peerId req \<noteq> peerId) (friendRequests st)\<rparr>
               else st))"

text \<open>\<^verbatim>\<open>removeFriend\<close>, part_001 lines 817 to 826 and part_002 lines 150 to 163.\<close>

definition removeFriend :: "bool \<Rightarrow> string \<Rightarrow> hook \<Rightarrow> hook" where
  "removeFriend setItem_ok peerId st =
     (let friendList = friends_of (storage st);
          friendList = filter (\<lambda>f. f_id f \<noteq> peerId) friendList
      in if setItem_ok
         then st\<lparr>storage := (storage st)\<lparr>chat_friends := Some friendList\<rparr>,
                 friends := friendList\<rparr>
         else st)"

section \<open>Inbound envelopes\<close>

text \<open>
  The \<^verbatim>\<open>Message\<close> that the \<^verbatim>\<open>message\<close> branch builds. part_001 (lines 885 to
  894) sets \<^verbatim>\<open>status: 'sent'\<close>; part_002 (lines 216 to 224) has no \<^verbatim>\<open>status\<close>
  field. \<open>st\<close> is that field.
\<close>

definition newMessage ::
  "string \<Rightarrow> nat \<Rightarrow> msgType option \<Rightarrow> string \<Rightarrow> msgStatus option \<Rightarrow> message" where
  "newMessage msgId now dataType payload st =
     \<lparr>m_id = msgId, m_sender = Stranger, m_timestamp = now,
      m_type = (case dataType of None \<Rightarrow> TText | Some t \<Rightarrow> t),
      m_text = (if dataType \<noteq> Some TImage \<and> dataType \<noteq> Some TAudio
                then Some payload else None),
      m_fileData = (if dataType = Some TImage \<or> dataType = Some TAudio
                    then Some payload else None),
      m_reactions = Some [], m_status = st, m_isEdited = False\<rparr>"

text \<open>\<^verbatim>\<open>msg.id === data.messageId\<close>.\<close>

definition id_is :: "message \<Rightarrow> string option \<Rightarrow> bool" where
  "id_is msg messageId = (messageId = Some (m_id msg))"

text \<open>The updater of the \<^verbatim>\<open>seen\<close> branch (the same in both hooks).\<close>

definition markSeen :: "string option \<Rightarrow> message list \<Rightarrow> message list" where
  "markSeen messageId prev =
     map (\<lambda>msg. if id_is msg messageId then msg\<lparr>m_status := Some Seen\<rparr> else msg) prev"

text \<open>The updater of the \<^verbatim>\<open>reaction\<close> branch of part_001 (line 962).\<close>

definition addReaction_p1 :: "string option \<Rightarrow> string \<Rightarrow> message list \<Rightarrow> message list" where
  "addReaction_p1 messageId emoji prev =
     map (\<lambda>m. if id_is m messageId
               then m\<lparr>m_reactions :=
                        Some ((case m_reactions m of None \<Rightarrow> [] | Some rs \<Rightarrow> rs)
                              @ [\<lparr>r_emoji = emoji, r_sender = Stranger\<rparr>])\<rparr>
               else m) prev"

text \<open>The updater of the \<^verbatim>\<open>reaction\<close> branch of part_002 (lines 253 to 259).\<close>

definition addReaction_p2 :: "string option \<Rightarrow> string \<Rightarrow> message list \<Rightarrow> message list" where
  "addReaction_p2 messageId emoji prev =
     map (\<lambda>msg.
            if id_is msg messageId then
              (if (case m_reactions msg of None \<Rightarrow> False
                   | Some rs \<Rightarrow> list_ex (\<lambda>r. r_sender r = Stranger \<and> r_emoji r = emoji) rs)
               then msg
               else msg\<lparr>m_reactions :=
                          Some ((case m_reactions msg of None \<Rightarrow> [] | Some rs \<Rightarrow> rs)
                                @ [\<lparr>r_emoji = emoji, r_sender = Stranger\<rparr>])\<rparr>)
            else msg) prev"

text \<open>How many reactions of the stranger with a given emoji a message carries.\<close>

definition strangerCount :: "string \<Rightarrow> message \<Rightarrow> nat" where
  "strangerCount emoji msg =
     length (filter (\<lambda>r. r_sender r = Stranger \<and> r_emoji r = emoji)
               (case m_reactions msg of None \<Rightarrow> [] | Some rs \<Rightarrow> rs))"

text \<open>
  The updater of the \<^verbatim>\<open>edit_message\<close> branch (part_001 line 966, part_002 lines
  266 to 271).
\<close>

definition editMessages :: "string option \<Rightarrow> string \<Rightarrow> message list \<Rightarrow> message list" where
  "editMessages messageId payload prev =
     map (\<lambda>msg. if m_sender msg = Stranger \<and> m_type msg = TText
                    \<and> (\<not> truthy messageId \<or> id_is msg messageId)
                 then msg\<lparr>m_text := Some payload, m_isEdited := True\<rparr>
                 else msg) prev"

text \<open>The updater of the \<^verbatim>\<open>profile\<close> branch: the greeting is patched.\<close>

definition patchGreeting :: "userProfile \<Rightarrow> message list \<Rightarrow> message list" where
  "patchGreeting profile prev =
     map (\<lambda>msg. if m_id msg = ''init-1''
                 then msg\<lparr>m_text := Some (''Connected with '' @ username profile
                                           @ ''. Say hello!'')\<rparr>
                 else msg) prev"

text \<open>
  The \<^verbatim>\<open>friend_request\<close> branch (part_001 lines 926 to 937, part_002 313 to 320).
  part_001 reads the current \<^verbatim>\<open>friends\<close> through the updater of \<^verbatim>\<open>setFriends\<close>;
  part_002 reads the \<^verbatim>\<open>friends\<close> of its closure, taken here as the current ones.
\<close>

definition enqueueFriendRequest :: "userProfile \<Rightarrow> dataConnection \<Rightarrow> hook \<Rightarrow> hook" where
  "enqueueFriendRequest profile conn st =
     (if \<not> list_ex (\<lambda>f. f_id f = c_peer conn) (friends st)
      then st\<lparr>friendRequests :=
                (if list_ex (\<lambda>req. fr_peerId req = c_peer conn) (friendRequests st)
                 then friendRequests st
                 else friendRequests st
                      @ [\<lparr>fr_profile = profile, fr_peerId = c_peer conn\<rparr>])\<rparr>
      else st)"

text \<open>
  \<^verbatim>\<open>handleIncomingData\<close> of part_001, lines 880 to 969. \<open>setItem_ok\<close> and \<open>now\<close> as
  in \<open>saveToRecent_p1\<close>.
\<close>

fun handleIncomingData_p1 ::
  "bool \<Rightarrow> nat \<Rightarrow> peerData \<Rightarrow> dataConnection \<Rightarrow> hook \<Rightarrow> hook" where
  "handleIncomingData_p1 ok now (EMessage payload dataType ident) conn st =
     (let msgId = (if truthy ident then the ident else toString now);
          msg = newMessage msgId now dataType payload (Some Sent)
      in if isMain conn st
         then emit (Send (c_handle conn) (ESeen (Some msgId)))
                (st\<lparr>messages := messages st @ [msg], partnerTyping := False\<rparr>)
         else emit (Send (c_handle conn) (ESeen (Some msgId)))
                (st\<lparr>incomingDirectMessage :=
                      Some \<lparr>dm_peerId = c_peer conn, dm_message = msg\<rparr>\<rparr>))"
| "handleIncomingData_p1 ok now (ESeen messageId) conn st =
     (if isMain conn st then st\<lparr>messages := markSeen messageId (messages st)\<rparr> else st)"
| "handleIncomingData_p1 ok now (ETyping payload) conn st =
     (if isMain conn st then st\<lparr>partnerTyping := payload\<rparr>
      else st\<lparr>incomingDirectStatus :=
                 Some \<lparr>ds_peerId = c_peer conn, ds_type = KTyping, ds_value = payload\<rparr>\<rparr>)"
| "handleIncomingData_p1 ok now (ERecording payload) conn st =
     (if isMain conn st then st\<lparr>partnerRecording := payload\<rparr>
      else st\<lparr>incomingDirectStatus :=
                 Some \<lparr>ds_peerId = c_peer conn, ds_type = KRecording, ds_value = payload\<rparr>\<rparr>)"
| "handleIncomingData_p1 ok now (EProfile payload) conn st =
     (let st1 = st\<lparr>storage := saveToRecent_p1 ok now payload (c_peer conn) (storage st)\<rparr>
      in if isMain conn st
         then st1\<lparr>partnerProfile := Some payload,
                  messages := patchGreeting payload (messages st1)\<rparr>
         else st1)"
| "handleIncomingData_p1 ok now (EFriendRequest payload) conn st =
     enqueueFriendRequest payload conn st"
| "handleIncomingData_p1 ok now (EFriendAccept payload) conn st =
     saveFriend ok now payload (c_peer conn) st"
| "handleIncomingData_p1 ok now EDisconnect conn st =
     (if isMain conn st
      then (emit (Close (c_handle conn))
              (st\<lparr>status := DISCONNECTED, messages := [], partnerPeerId := None\<rparr>))
           \<lparr>mainConnRef := None\<rparr>
      else st\<lparr>directConnsRef := (directConnsRef st)(c_peer conn := None),
              activeDirectConnections := activeDirectConnections st - {c_peer conn}\<rparr>)"
| "handleIncomingData_p1 ok now (EVanishMode payload) conn st =
     (if isMain conn st then st\<lparr>remoteVanishMode := Some payload\<rparr> else st)"
| "handleIncomingData_p1 ok now (EReaction payload messageId) conn st =
     (if truthy messageId
      then (let st1 = st\<lparr>incomingReaction :=
                           Some \<lparr>re_peerId = Some (c_peer conn), re_messageId = the messageId,
                                 re_emoji = payload, re_sender = Stranger\<rparr>\<rparr>
            in if isMain conn st
               then st1\<lparr>messages := addReaction_p1 messageId payload (messages st1)\<rparr>
               else st1)
      else st)"
| "handleIncomingData_p1 ok now (EEditMessage payload messageId) conn st =
     (if isMain conn st
      then st\<lparr>messages := editMessages messageId payload (messages st)\<rparr>
      else st)"
| "handleIncomingData_p1 ok now (EOther t) conn st = st"

text \<open>
  \<^verbatim>\<open>handleIncomingData\<close> of part_002, lines 209 to 337. \<open>rnd\<close> is the value of
  \<^verbatim>\<open>Math.random().toString()\<close>. The timers of the \<^verbatim>\<open>typing\<close> and \<^verbatim>\<open>recording\<close>
  branches are armed for \<open>now + 4000\<close>.
\<close>

fun handleIncomingData_p2 ::
  "bool \<Rightarrow> nat \<Rightarrow> string \<Rightarrow> peerData \<Rightarrow> dataConnection \<Rightarrow> hook \<Rightarrow> hook" where
  "handleIncomingData_p2 ok now rnd (EMessage payload dataType ident) conn st =
     (let msgId = (if truthy ident then the ident else toString now @ rnd);
          msg = newMessage msgId now dataType payload None
      in if isMain conn st
         then emit (Send (c_handle conn) (ESeen (Some msgId)))
                (st\<lparr>partnerTyping := False, partnerRecording := False,
                    typingTimeoutRef := None, recordingTimeoutRef := None,
                    messages := messages st @ [msg]\<rparr>)
         else st\<lparr>incomingDirectMessage :=
                    Some \<lparr>dm_peerId = c_peer conn, dm_message = msg\<rparr>\<rparr>)"
| "handleIncomingData_p2 ok now rnd (ESeen messageId) conn st =
     (if isMain conn st \<and> truthy messageId
      then st\<lparr>messages := markSeen messageId (messages st)\<rparr> else st)"
| "handleIncomingData_p2 ok now rnd (EReaction payload messageId) conn st =
     (if truthy messageId
      then (let st1 = st\<lparr>incomingReaction :=
                           Some \<lparr>re_peerId = None, re_messageId = the messageId,
                                 re_emoji = payload, re_sender = Stranger\<rparr>\<rparr>
            in if isMain conn st
               then st1\<lparr>messages := addReaction_p2 messageId payload (messages st1)\<rparr>
               else st1)
      else st)"
| "handleIncomingData_p2 ok now rnd (EEditMessage payload messageId) conn st =
     (if isMain conn st
      then st\<lparr>messages := editMessages messageId payload (messages st)\<rparr>
      else st)"
| "handleIncomingData_p2 ok now rnd (ETyping payload) conn st =
     (if isMain conn st
      then st\<lparr>partnerTyping := payload,
              typingTimeoutRef := (if payload then Some (now + 4000) else None)\<rparr>
      else st\<lparr>incomingDirectStatus :=
                 Some \<lparr>ds_peerId = c_peer conn, ds_type = KTyping, ds_value = payload\<rparr>\<rparr>)"
| "handleIncomingData_p2 ok now rnd (ERecording payload) conn st =
     (if isMain conn st
      then st\<lparr>partnerRecording := payload,
              recordingTimeoutRef := (if payload then Some (now + 4000) else None)\<rparr>
      else st\<lparr>incomingDirectStatus :=
                 Some \<lparr>ds_peerId = c_peer conn, ds_type = KRecording, ds_value = payload\<rparr>\<rparr>)"
| "handleIncomingData_p2 ok now rnd (EProfile payload) conn st =
     (if isMain conn st
      then (st\<lparr>partnerProfile := Some payload,
               storage := saveToRecent_p2 ok now payload (c_peer conn) (storage st)\<rparr>)
           \<lparr>messages := patchGreeting payload (messages st)\<rparr>
      else st\<lparr>storage := saveToRecent_p2 ok now payload (c_peer conn) (storage st)\<rparr>)"
| "handleIncomingData_p2 ok now rnd (EVanishMode payload) conn st =
     (if isMain conn st then st\<lparr>remoteVanishMode := Some payload\<rparr> else st)"
| "handleIncomingData_p2 ok now rnd (EFriendRequest payload) conn st =
     enqueueFriendRequest payload conn st"
| "handleIncomingData_p2 ok now rnd (EFriendAccept payload) conn st =
     saveFriend ok now payload (c_peer conn) st"
| "handleIncomingData_p2 ok now rnd EDisconnect conn st =
     (if isMain conn st
      then (emit (Close (c_handle conn))
              (st\<lparr>status := DISCONNECTED, messages := []\<rparr>))
           \<lparr>mainConnRef := None, partnerPeerId := None\<rparr>
      else st\<lparr>directConnsRef := (directConnsRef st)(c_peer conn := None)\<rparr>)"
| "handleIncomingData_p2 ok now rnd (EOther t) conn st = st"

text \<open>
  The referenced id is missing from the envelope, or no message of the history
  has it.
\<close>

definition absent :: "string option \<Rightarrow> message list \<Rightarrow> bool" where
  "absent messageId ms =
     (case messageId of None \<Rightarrow> True | Some s \<Rightarrow> s \<notin> set (map m_id ms))"

section \<open>Ending the main session\<close>

text \<open>
  \<^verbatim>\<open>cleanupMain\<close> of part_001, lines 842 to 876. The \<^verbatim>\<open>send\<close> stands in a
  \<^verbatim>\<open>try/catch\<close>: the call is made and its failure ignored. The delayed close is
  armed for \<open>now + 100\<close>; \<open>mainConnRef\<close> keeps the connection until it fires.
\<close>

definition cleanupMain_p1 :: "nat \<Rightarrow> hook \<Rightarrow> hook" where
  "cleanupMain_p1 now st =
     (let st1 = (case mainConnRef st of
                   Some c \<Rightarrow> (emit (Send (c_handle c) EDisconnect) st)
                               \<lparr>closeTimers := closeTimers st @ [now + 100]\<rparr>
                 | None \<Rightarrow> st);
          st2 = st1\<lparr>connectionTimeoutRef := None, typingTimeoutRef := None,
                    recordingTimeoutRef := None, isMatchmakerRef := False,
                    partnerTyping := False, partnerRecording := False,
                    partnerPeerId := None, partnerProfile := None,
                    remoteVanishMode := None\<rparr>;
          st3 = (if channelRef st2 \<and> truthy (myPeerIdRef st2)
                 then emit (Track \<lparr>ps_peerId = the (myPeerIdRef st2), ps_status = Idle,
                                    ps_timestamp = int now,
                                    ps_profile = userProfile st2\<rparr>) st2
                 else st2)
      in st3\<lparr>status := DISCONNECTED\<rparr>)"

text \<open>
  \<^verbatim>\<open>cleanupMain\<close> of part_002, lines 170 to 206: it leaves the presence channel
  instead of publishing a status, and does not touch \<^verbatim>\<open>partnerProfile\<close> and
  \<^verbatim>\<open>remoteVanishMode\<close>.
\<close>

definition cleanupMain_p2 :: "nat \<Rightarrow> hook \<Rightarrow> hook" where
  "cleanupMain_p2 now st =
     (let st1 = (if channelRef st
                 then (emit RemoveChannel (emit Untrack st))\<lparr>channelRef := False\<rparr>
                 else st);
          st2 = (case mainConnRef st1 of
                   Some c \<Rightarrow> (emit (Send (c_handle c) EDisconnect) st1)
                               \<lparr>closeTimers := closeTimers st1 @ [now + 100]\<rparr>
                 | None \<Rightarrow> st1)
      in st2\<lparr>connectionTimeoutRef := None, isMatchmakerRef := False,
             isConnectingRef := False, partnerTyping := False,
             partnerRecording := False, status := DISCONNECTED,
             partnerPeerId := None, typingTimeoutRef := None,
             recordingTimeoutRef := None\<rparr>)"

text \<open>\<^verbatim>\<open>disconnect\<close> of part_001, lines 1054 to 1057.\<close>

definition disconnect_p1 :: "nat \<Rightarrow> hook \<Rightarrow> hook" where
  "disconnect_p1 now st = (cleanupMain_p1 now st)\<lparr>messages := []\<rparr>"

text \<open>\<^verbatim>\<open>disconnect\<close> of part_002, lines 799 to 805.\<close>

definition disconnect_p2 :: "bool \<Rightarrow> nat \<Rightarrow> hook \<Rightarrow> hook" where
  "disconnect_p2 ok now st =
     (let st1 = (case (partnerProfile st, mainConnRef st) of
                   (Some p, Some c) \<Rightarrow>
                     if c_peer c \<noteq> []
                     then st\<lparr>storage := saveToRecent_p2 ok now p (c_peer c) (storage st)\<rparr>
                     else st
                 | _ \<Rightarrow> st)
      in (cleanupMain_p2 now st1)\<lparr>messages := []\<rparr>)"

section \<open>Timers\<close>

text \<open>
  The callbacks of the timers, run when the clock has reached their deadline.
  The expiry of the typing and recording indicators is armed by part_002 only
  (lines 279 and 288).
\<close>

definition expireTyping :: "nat \<Rightarrow> hook \<Rightarrow> hook" where
  "expireTyping t st =
     (case typingTimeoutRef st of
        Some d \<Rightarrow> if d \<le> t then st\<lparr>partnerTyping := False, typingTimeoutRef := None\<rparr>
                  else st
      | None \<Rightarrow> st)"

definition expireRecording :: "nat \<Rightarrow> hook \<Rightarrow> hook" where
  "expireRecording t st =
     (case recordingTimeoutRef st of
        Some d \<Rightarrow> if d \<le> t then st\<lparr>partnerRecording := False, recordingTimeoutRef := None\<rparr>
                  else st
      | None \<Rightarrow> st)"

text \<open>
  The delayed close of \<^verbatim>\<open>cleanupMain\<close>:
  \<^verbatim>\<open>mainConnRef.current?.close(); mainConnRef.current = null\<close>. Of several due
  closes the first closes the connection and the others find the ref null.
\<close>

definition fireClose :: "nat \<Rightarrow> hook \<Rightarrow> hook" where
  "fireClose t st =
     (if list_ex (\<lambda>d. d \<le> t) (closeTimers st)
      then (case mainConnRef st of
              Some c \<Rightarrow> emit (Close (c_handle c)) st
            | None \<Rightarrow> st)
           \<lparr>mainConnRef := None, closeTimers := filter (\<lambda>d. t < d) (closeTimers st)\<rparr>
      else st)"

text \<open>
  The timeout of a match attempt (part_001 lines 766 to 773, part_002 lines 507
  to 514).
\<close>

definition fireConnectionTimeout :: "nat \<Rightarrow> hook \<Rightarrow> hook" where
  "fireConnectionTimeout t st =
     (case connectionTimeoutRef st of
        Some d \<Rightarrow>
          if d \<le> t
          then (if isMatchmakerRef st
                   \<and> (case mainConnRef st of None \<Rightarrow> True | Some c \<Rightarrow> \<not> c_open c)
                then st\<lparr>isMatchmakerRef := False, mainConnRef := None\<rparr>
                else st)\<lparr>connectionTimeoutRef := None\<rparr>
          else st
      | None \<Rightarrow> st)"

text \<open>
  All timers due at time \<open>t\<close> fire. Only the delayed close and the connection
  timeout touch the same refs; of these two the one with the earlier deadline
  runs first.
\<close>

definition fireTimers :: "nat \<Rightarrow> hook \<Rightarrow> hook" where
  "fireTimers t st =
     (let st1 = expireRecording t (expireTyping t st);
          close_first = (case connectionTimeoutRef st1 of
                           None \<Rightarrow> True
                         | Some dc \<Rightarrow> list_ex (\<lambda>d. d \<le> dc) (closeTimers st1))
      in if close_first then fireConnectionTimeout t (fireClose t st1)
         else fireClose t (fireConnectionTimeout t st1))"

section \<open>Event loop\<close>

text \<open>
  An event is an envelope arriving on a connection (with the outcome of
  \<^verbatim>\<open>setItem\<close> and the value of \<^verbatim>\<open>Math.random().toString()\<close> at that moment) or the
  user leaving the session (\<^verbatim>\<open>disconnect\<close>). Events carry their time; the timers
  due by then fire before the event is handled.
\<close>

datatype event =
    Data bool string peerData dataConnection
  | UserDisconnect bool

fun handle_p1 :: "nat \<Rightarrow> event \<Rightarrow> hook \<Rightarrow> hook" where
  "handle_p1 t (Data ok rnd d conn) st = handleIncomingData_p1 ok t d conn st"
| "handle_p1 t (UserDisconnect ok) st = disconnect_p1 t st"

fun handle_p2 :: "nat \<Rightarrow> event \<Rightarrow> hook \<Rightarrow> hook" where
  "handle_p2 t (Data ok rnd d conn) st = handleIncomingData_p2 ok t rnd d conn st"
| "handle_p2 t (UserDisconnect ok) st = disconnect_p2 ok t st"

fun run_p1 :: "hook \<Rightarrow> (nat \<times> event) list \<Rightarrow> hook" where
  "run_p1 st [] = st"
| "run_p1 st ((t, ev) # evs) = run_p1 (handle_p1 t ev (fireTimers t st)) evs"

fun run_p2 :: "hook \<Rightarrow> (nat \<times> event) list \<Rightarrow> hook" where
  "run_p2 st [] = st"
| "run_p2 st ((t, ev) # evs) = run_p2 (handle_p2 t ev (fireTimers t st)) evs"

text \<open>Envelopes of type \<^verbatim>\<open>typing\<close>, and of type \<^verbatim>\<open>recording\<close>.\<close>

fun isTyping :: "event \<Rightarrow> bool" where
  "isTyping (Data ok rnd (ETyping b) conn) = True"
| "isTyping ev = False"

fun isRecording :: "event \<Rightarrow> bool" where
  "isRecording (Data ok rnd (ERecording b) conn) = True"
| "isRecording ev = False"

text \<open>
  An indicator that is set has a pending expiry timer that is due by \<open>D\<close>.
\<close>

definition typingBounded :: "nat \<Rightarrow> hook \<Rightarrow> bool" where
  "typingBounded D st =
     (if partnerTyping st
      then (case typingTimeoutRef st of None \<Rightarrow> False | Some d \<Rightarrow> d \<le> D)
      else True)"

definition recordingBounded :: "nat \<Rightarrow> hook \<Rightarrow> bool" where
  "recordingBounded D st =
     (if partnerRecording st
      then (case recordingTimeoutRef st of None \<Rightarrow> False | Some d \<Rightarrow> d \<le> D)
      else True)"

text \<open>
  The events after which part_001 has the typing indicator cleared or set anew:
  a \<^verbatim>\<open>typing\<close> envelope, a \<^verbatim>\<open>message\<close> envelope (line 898) and the user leaving
  (\<^verbatim>\<open>cleanupMain\<close>); for the recording indicator a \<^verbatim>\<open>recording\<close> envelope and the
  user leaving.
\<close>

fun touchesTyping_p1 :: "event \<Rightarrow> bool" where
  "touchesTyping_p1 (Data ok rnd (ETyping b) conn) = True"
| "touchesTyping_p1 (Data ok rnd (EMessage payload dataType ident) conn) = True"
| "touchesTyping_p1 (UserDisconnect ok) = True"
| "touchesTyping_p1 ev = False"

fun touchesRecording_p1 :: "event \<Rightarrow> bool" where
  "touchesRecording_p1 (Data ok rnd (ERecording b) conn) = True"
| "touchesRecording_p1 (UserDisconnect ok) = True"
| "touchesRecording_p1 ev = False"

text \<open>An indicator that is set and has no expiry timer.\<close>

definition typingHeld :: "hook \<Rightarrow> bool" where
  "typingHeld st \<longleftrightarrow> partnerTyping st \<and> typingTimeoutRef st = None"

definition recordingHeld :: "hook \<Rightarrow> bool" where
  "recordingHeld st \<longleftrightarrow> partnerRecording st \<and> recordingTimeoutRef st = None"

section \<open>Matchmaking\<close>

text \<open>
  \<^verbatim>\<open>setupConnection\<close> of part_001, lines 973 to 1032, up to the registration of
  the handlers.
\<close>

definition setupConnection_p1 ::
  "nat \<Rightarrow> dataConnection \<Rightarrow> connectionType option \<Rightarrow> hook \<Rightarrow> hook" where
  "setupConnection_p1 now conn metadata st =
     (if metadata = Some Random
      then (let st1 = st\<lparr>mainConnRef := Some conn, partnerPeerId := Some (c_peer conn),
                         isMatchmakerRef := False\<rparr>
            in if channelRef st1 \<and> truthy (myPeerIdRef st1)
               then emit (Track \<lparr>ps_peerId = the (myPeerIdRef st1), ps_status = Busy,
                                  ps_timestamp = int now,
                                  ps_profile = userProfile st1\<rparr>) st1
               else st1)
      else st\<lparr>directConnsRef := (directConnsRef st)(c_peer conn \<mapsto> conn),
              activeDirectConnections := insert (c_peer conn) (activeDirectConnections st)\<rparr>)"

text \<open>
  \<^verbatim>\<open>setupConnection\<close> of part_002, lines 340 to 395, up to the registration of
  the handlers.
\<close>

definition setupConnection_p2 ::
  "nat \<Rightarrow> dataConnection \<Rightarrow> connectionType option \<Rightarrow> hook \<Rightarrow> hook" where
  "setupConnection_p2 now conn metadata st =
     (let st0 = st\<lparr>connectionTimeoutRef := None\<rparr>
      in if metadata = Some Random \<or> (metadata = None \<and> isMatchmakerRef st0)
         then (let st1 = st0\<lparr>mainConnRef := Some conn, isMatchmakerRef := False,
                             isConnectingRef := False,
                             partnerPeerId := Some (c_peer conn)\<rparr>
               in if channelRef st1 \<and> truthy (myPeerIdRef st1)
                  then emit (Track \<lparr>ps_peerId = the (myPeerIdRef st1), ps_status = Busy,
                                     ps_timestamp = int now,
                                     ps_profile = userProfile st1\<rparr>) st1
                  else st1)
         else st0\<lparr>directConnsRef := (directConnsRef st0)(c_peer conn \<mapsto> conn)\<rparr>)"

text \<open>
  The sort of both hooks, \<^verbatim>\<open>.sort((a, b) => a.timestamp - b.timestamp)\<close>:
  \<^verbatim>\<open>Array.prototype.sort\<close> is stable, and so is \<open>sort_key\<close>.
\<close>

definition sortByTimestamp :: "presenceState list \<Rightarrow> presenceState list" where
  "sortByTimestamp us = sort_key ps_timestamp us"

text \<open>
  \<^verbatim>\<open>waiters\<close> of part_001, lines 743 to 745; \<open>me\<close> is \<^verbatim>\<open>myPeerId\<close> and \<open>users\<close>
  is \<^verbatim>\<open>onlineUsers\<close>.
\<close>

definition waiters :: "string \<Rightarrow> presenceState list \<Rightarrow> presenceState list" where
  "waiters me users =
     sortByTimestamp
       (filter (\<lambda>u. ps_status u = Waiting \<and> ps_peerId u \<noteq> me) users)"

text \<open>\<^verbatim>\<open>sortedWaiters\<close> of part_002, lines 484 to 486.\<close>

definition sortedWaiters :: "presenceState list \<Rightarrow> presenceState list" where
  "sortedWaiters allUsers =
     sortByTimestamp (filter (\<lambda>u. ps_status u = Waiting) allUsers)"

text \<open>
  The attempt itself, from the assignment \<^verbatim>\<open>isMatchmakerRef.current = true\<close> to
  the end of the \<^verbatim>\<open>try/catch\<close> (part_001 lines 754 to 780 with a timeout of
  5000, part_002 lines 493 to 521 with 6000). \<open>res\<close> is what
  \<^verbatim>\<open>peerRef.current.connect\<close> does if it is called. The new connection is not
  open yet.
\<close>

definition attempt ::
  "(nat \<Rightarrow> dataConnection \<Rightarrow> connectionType option \<Rightarrow> hook \<Rightarrow> hook) \<Rightarrow> nat \<Rightarrow>
   connectResult \<Rightarrow> nat \<Rightarrow> string \<Rightarrow> hook \<Rightarrow> hook" where
  "attempt setupConnection timeout res now target st =
     (let st1 = st\<lparr>isMatchmakerRef := True\<rparr>
      in if \<not> peerRef st1 then st1\<lparr>isMatchmakerRef := False\<rparr>
         else
           (let st2 = emit (Connect target (Some Random)) st1
            in case res of
                 Threw \<Rightarrow> st2\<lparr>isMatchmakerRef := False\<rparr>
               | Undefined \<Rightarrow> st2\<lparr>isMatchmakerRef := False\<rparr>
               | Connection h \<Rightarrow>
                   (setupConnection now
                      \<lparr>c_handle = h, c_peer = target, c_open = False\<rparr> (Some Random) st2)
                   \<lparr>connectionTimeoutRef := Some (now + timeout)\<rparr>))"

text \<open>
  The body of the interval callback of the matchmaking effect of part_001, lines
  741 to 781, with the guard of the effect (line 736) that decides whether the
  interval exists.
\<close>

definition matchmakingTick_p1 :: "connectResult \<Rightarrow> nat \<Rightarrow> hook \<Rightarrow> hook" where
  "matchmakingTick_p1 res now st =
     (if status st \<noteq> SEARCHING \<or> \<not> truthy (myPeerId st) \<or> \<not> channelRef st
         \<or> isMatchmakerRef st \<or> mainConnRef st \<noteq> None
      then st
      else (case waiters (the (myPeerId st)) (onlineUsers st) of
              [] \<Rightarrow> st
            | target # _ \<Rightarrow> attempt setupConnection_p1 5000 res now (ps_peerId target) st))"

text \<open>
  The presence \<^verbatim>\<open>sync\<close> handler that \<^verbatim>\<open>joinLobby(myId)\<close> of part_002 registers,
  lines 477 to 523. \<open>allUsers\<close> is the snapshot.
\<close>

definition presenceSync_p2 ::
  "connectResult \<Rightarrow> nat \<Rightarrow> string \<Rightarrow> presenceState list \<Rightarrow> hook \<Rightarrow> hook" where
  "presenceSync_p2 res now myId allUsers st =
     (let st1 = st\<lparr>onlineUsers := allUsers\<rparr>
      in if isMatchmakerRef st1
            \<or> (case mainConnRef st1 of None \<Rightarrow> False | Some c \<Rightarrow> c_open c)
         then st1
         else (case sortedWaiters allUsers of
                 [] \<Rightarrow> st1
               | oldestWaiter # _ \<Rightarrow>
                   if ps_peerId oldestWaiter \<noteq> myId
                   then attempt setupConnection_p2 6000 res now (ps_peerId oldestWaiter) st1
                   else st1))"

text \<open>
  The presence \<^verbatim>\<open>sync\<close> handler of part_001, lines 710 to 714: it stores the
  snapshot; the interval callback reads it.
\<close>

definition presenceSync_p1 :: "presenceState list \<Rightarrow> hook \<Rightarrow> hook" where
  "presenceSync_p1 allUsers st = st\<lparr>onlineUsers := allUsers\<rparr>"

text \<open>
  The oldest waiting entry of a snapshot, as the claims speak of it: the first
  entry in the snapshot among the waiting entries of least timestamp.
\<close>

definition oldestWaiting :: "presenceState list \<Rightarrow> presenceState option" where
  "oldestWaiting us =
     find (\<lambda>u. ps_status u = Waiting
               \<and> list_all (\<lambda>v. ps_status v = Waiting \<longrightarrow> ps_timestamp u \<le> ps_timestamp v) us)
          us"

text \<open>The connection attempts among the effects.\<close>

fun connects :: "effect list \<Rightarrow> string list" where
  "connects [] = []"
| "connects (Connect target m # es) = target # connects es"
| "connects (e # es) = connects es"

section \<open>Initial state and the refresh of \<open>lastSeen\<close>\<close>

text \<open>
  The state of the hook at mount: the initial values of \<^verbatim>\<open>useState\<close> and
  \<^verbatim>\<open>useRef\<close> (part_001 lines 619 to 656, part_002 lines 16 to 53), over a given
  store, with no effect made yet.
\<close>

definition initial :: "userProfile option \<Rightarrow> localStorage \<Rightarrow> hook" where
  "initial profile ls =
     \<lparr>userProfile = profile, messages = [], status = IDLE, partnerTyping = False,
      partnerRecording = False, partnerProfile = None, remoteVanishMode = None,
      partnerPeerId = None, onlineUsers = [], myPeerId = None, error = None,
      incomingDirectMessage = None, incomingReaction = None,
      incomingDirectStatus = None, activeDirectConnections = {}, friends = [],
      friendRequests = [], peerRef = False, mainConnRef = None,
      directConnsRef = Map.empty, channelRef = False, myPeerIdRef = None,
      isMatchmakerRef = False, isConnectingRef = False, connectionTimeoutRef = None,
      typingTimeoutRef = None, recordingTimeoutRef = None, closeTimers = [],
      storage = ls, effects = []\<rparr>"

text \<open>
  The effect that refreshes \<^verbatim>\<open>lastSeen\<close> of the friends that are online,
  part_002 lines 71 to 92. The write is outside any \<^verbatim>\<open>try/catch\<close> and comes after
  \<^verbatim>\<open>setFriends\<close>.
\<close>

definition updateFriendsPresence_p2 :: "bool \<Rightarrow> nat \<Rightarrow> hook \<Rightarrow> hook" where
  "updateFriendsPresence_p2 setItem_ok now st =
     (if onlineUsers st = [] \<or> friends st = [] then st
      else
        (let onlinePeerIds = set (map ps_peerId (onlineUsers st));
             stale = (\<lambda>friend. f_id friend \<in> onlinePeerIds
                                \<and> 60000 < int now - int (f_lastSeen friend));
             newFriends = map (\<lambda>friend. if stale friend
                                          then friend\<lparr>f_lastSeen := now\<rparr> else friend)
                              (friends st)
         in if list_ex stale (friends st)
            then (if setItem_ok
                  then st\<lparr>friends := newFriends,
                          storage := (storage st)\<lparr>chat_friends := Some newFriends\<rparr>\<rparr>
                  else st\<lparr>friends := newFriends\<rparr>)
            else st))"

text \<open>No two records of the persisted list, nor of the state, have the same id.\<close>

definition friends_inv :: "hook \<Rightarrow> bool" where
  "friends_inv st \<longleftrightarrow>
     distinct (map f_id (friends_of (storage st))) \<and> distinct (map f_id (friends st))"

section \<open>Sample values\<close>

text \<open>Values at which the theorems below are instantiated.\<close>

definition profileOf :: "string \<Rightarrow> userProfile" where
  "profileOf name =
     \<lparr>username = name, age = ''20'', gender = ''x'', location = ''y'', interests = []\<rparr>"

definition recentAt :: "nat \<Rightarrow> recentPeer" where
  "recentAt i =
     \<lparr>rp_id = toString i, rp_peerId = ''peer'', rp_profile = profileOf (replicate i CHR ''u''),
      rp_metAt = i\<rparr>"

definition fullRecents :: localStorage where
  "fullRecents = \<lparr>recent_peers = Some (map recentAt (rev [1..<21])), chat_friends = None\<rparr>"

definition oneFriend :: hook where
  "oneFriend =
     initial None
       \<lparr>recent_peers = None,
        chat_friends = Some [\<lparr>f_id = ''a'', f_profile = profileOf ''ann'',
                               f_addedAt = 1, f_lastSeen = 1\<rparr>]\<rparr>"

definition strangerText :: "string \<Rightarrow> string \<Rightarrow> message" where
  "strangerText ident txt = newMessage ident 1 (Some TText) txt (Some Sent)"

definition mainConn :: dataConnection where
  "mainConn = \<lparr>c_handle = 1, c_peer = ''partner'', c_open = True\<rparr>"

definition directConn :: dataConnection where
  "directConn = \<lparr>c_handle = 2, c_peer = ''friend'', c_open = True\<rparr>"

text \<open>
  A connected main session with one direct connection beside it, and one
  message of the partner in the history.
\<close>

definition connected :: hook where
  "connected =
     (initial (Some (profileOf ''me'')) \<lparr>recent_peers = None, chat_friends = None\<rparr>)
       \<lparr>status := CONNECTED, mainConnRef := Some mainConn,
        directConnsRef := [''friend'' \<mapsto> directConn],
        messages := [strangerText ''m0'' ''hello''],
        partnerPeerId := Some ''partner'', peerRef := True, channelRef := True,
        myPeerId := Some ''me'', myPeerIdRef := Some ''me''\<rparr>"

definition waitingAt :: "string \<Rightarrow> int \<Rightarrow> presenceState" where
  "waitingAt p t =
     \<lparr>ps_peerId = p, ps_status = Waiting, ps_timestamp = t, ps_profile = Some (profileOf p)\<rparr>"

text \<open>
  A client that has asked for a session: \<^verbatim>\<open>connect\<close> has published its status
  \<^verbatim>\<open>waiting\<close>, no connection exists and no attempt is in flight.
\<close>

definition searching :: hook where
  "searching =
     (initial (Some (profileOf ''me'')) \<lparr>recent_peers = None, chat_friends = None\<rparr>)
       \<lparr>status := SEARCHING, peerRef := True, channelRef := True,
        myPeerId := Some ''me'', myPeerIdRef := Some ''me''\<rparr>"


section \<open>Recent peers\<close>

lemma saveToRecent_p1_eq_p2:
  "saveToRecent_p1 ok now profile peerId ls = saveToRecent_p2 ok now profile peerId ls"
  by (simp add: saveToRecent_p1_def saveToRecent_p2_def Let_def)

lemma recents_of_update [simp]: "recents_of (ls\<lparr>recent_peers := Some l\<rparr>) = l"
  by (simp add: recents_of_def)

lemma recents_of_saveToRecent_p2:
  "recents_of (saveToRecent_p2 ok now profile peerId ls) =
     (if ok
      then take 20 (\<lparr>rp_id = toString now, rp_peerId = peerId,
                      rp_profile = profile, rp_metAt = now\<rparr>
                    # filter (\<lambda>p. username (rp_profile p) \<noteq> username profile) (recents_of ls))
      else recents_of ls)"
  by (simp add: saveToRecent_p2_def Let_def)

lemma recents_inv_insert:
  assumes inv: "recents_inv rs"
    and clock: "\<forall>p\<in>set rs. rp_metAt p \<le> now"
    and new: "rp_metAt new = now"
  shows "recents_inv (take 20 (new # filter (\<lambda>p. username (rp_profile p) \<noteq> username (rp_profile new)) rs))"
proof -
  let ?key = "\<lambda>p. username (rp_profile p)"
  let ?fs = "filter (\<lambda>p. ?key p \<noteq> ?key new) rs"
  have d: "distinct (map ?key rs)" and s: "sorted_wrt (\<lambda>p q. rp_metAt q \<le> rp_metAt p) rs"
    using inv by (simp_all add: recents_inv_def)
  have d1: "distinct (map ?key (new # ?fs))"
    using d by (auto simp: distinct_map_filter)
  have s1: "sorted_wrt (\<lambda>p q. rp_metAt q \<le> rp_metAt p) (new # ?fs)"
    using s clock new by (auto simp: sorted_wrt_filter)
  have "distinct (map ?key (take 20 (new # ?fs)))"
    using d1 by (metis distinct_take take_map)
  moreover have "sorted_wrt (\<lambda>p q. rp_metAt q \<le> rp_metAt p) (take 20 (new # ?fs))"
    using s1 by (rule sorted_wrt_take)
  moreover have "length (take 20 (new # ?fs)) \<le> 20" by simp
  ultimately show ?thesis unfolding recents_inv_def by blast
qed

lemma same_name_after_insert:
  "filter (\<lambda>p. username (rp_profile p) = n)
     (take 20 (new # filter (\<lambda>p. username (rp_profile p) \<noteq> n) rs)) =
   (if username (rp_profile new) = n then [new] else [])"
proof -
  have "filter (\<lambda>p. username (rp_profile p) = n)
          (take k (filter (\<lambda>p. username (rp_profile p) \<noteq> n) rs)) = []" for k
    by (auto simp: filter_empty_conv dest: in_set_takeD)
  from this [of 19] show ?thesis by simp
qed

lemma take_full_evicts:
  assumes "length rs = 20"
  shows "take 20 (new # rs) = new # butlast rs"
  using assms by (simp add: butlast_conv_take)

lemma recents_inv_absent: "recent_peers ls = None \<Longrightarrow> recents_inv (recents_of ls)"
  by (simp add: recents_inv_def recents_of_def)

text \<open>
  Claim C7. After \<^verbatim>\<open>saveToRecent\<close> (the two hooks compute the same store) the
  persisted recent-peers list has at most 20 entries, no two entries with the
  same username, and is ordered newest first, provided the list read had that
  shape and the clock is not behind the entries read. When the write succeeds
  the new entry is the head and is the only entry with its username; and saving
  a username that is not in a list of 20 entries drops the last, oldest entry.
\<close>

theorem saveToRecent_recents_inv:
  assumes "recents_inv (recents_of ls)"
    and "\<forall>p\<in>set (recents_of ls). rp_metAt p \<le> now"
  shows "saveToRecent_p1 ok now profile peerId ls = saveToRecent_p2 ok now profile peerId ls
       \<and> recents_inv (recents_of (saveToRecent_p2 ok now profile peerId ls))
       \<and> (ok \<longrightarrow>
            hd (recents_of (saveToRecent_p2 ok now profile peerId ls)) =
              \<lparr>rp_id = toString now, rp_peerId = peerId, rp_profile = profile, rp_metAt = now\<rparr>
          \<and> filter (\<lambda>p. username (rp_profile p) = username profile)
                (recents_of (saveToRecent_p2 ok now profile peerId ls)) =
              [\<lparr>rp_id = toString now, rp_peerId = peerId, rp_profile = profile, rp_metAt = now\<rparr>])
       \<and> (ok \<and> length (recents_of ls) = 20
            \<and> username profile \<notin> (\<lambda>p. username (rp_profile p)) ` set (recents_of ls) \<longrightarrow>
            recents_of (saveToRecent_p2 ok now profile peerId ls) =
              \<lparr>rp_id = toString now, rp_peerId = peerId, rp_profile = profile, rp_metAt = now\<rparr>
              # butlast (recents_of ls))"
proof (cases ok)
  case False
  then show ?thesis
    using assms(1) by (simp add: saveToRecent_p1_eq_p2 recents_of_saveToRecent_p2)
next
  case True
  let ?new = "\<lparr>rp_id = toString now, rp_peerId = peerId, rp_profile = profile, rp_metAt = now\<rparr>"
  let ?out = "recents_of (saveToRecent_p2 True now profile peerId ls)"
  have out: "?out = take 20 (?new # filter (\<lambda>p. username (rp_profile p) \<noteq> username profile) (recents_of ls))"
    by (simp add: recents_of_saveToRecent_p2)
  have "recents_inv (take 20 (?new # filter (\<lambda>p. username (rp_profile p) \<noteq> username (rp_profile ?new)) (recents_of ls)))"
    by (rule recents_inv_insert [OF assms]) simp
  then have inv: "recents_inv ?out"
    by (simp only: out recentPeer.simps)
  have head: "hd ?out = ?new"
    by (simp add: out)
  have same: "filter (\<lambda>p. username (rp_profile p) = username profile) ?out = [?new]"
    by (simp only: out same_name_after_insert) simp
  have evict: "?out = ?new # butlast (recents_of ls)"
    if "length (recents_of ls) = 20"
      "username profile \<notin> (\<lambda>p. username (rp_profile p)) ` set (recents_of ls)"
  proof -
    have "filter (\<lambda>p. username (rp_profile p) \<noteq> username profile) (recents_of ls) = recents_of ls"
      using that(2) by (force simp: filter_id_conv)
    then show ?thesis
      using that(1) by (simp only: out take_full_evicts)
  qed
  from True have ok: "ok = True" by simp
  show ?thesis
    unfolding ok using saveToRecent_p1_eq_p2 inv head same evict by blast
qed

lemma recentAt_name: "username (rp_profile (recentAt i)) = replicate i CHR ''u''"
  by (simp add: recentAt_def profileOf_def)

lemma recentAt_metAt: "rp_metAt (recentAt i) = i"
  by (simp add: recentAt_def)

lemma fullRecents_list: "recents_of fullRecents = map recentAt (rev [1..<21])"
  by (simp add: fullRecents_def recents_of_def)

lemma fullRecents_inv: "recents_inv (recents_of fullRecents)"
proof -
  have "inj_on (\<lambda>i. replicate i CHR ''u'') (set (rev [1..<21]))"
    by (rule inj_onI) (metis length_replicate)
  then have "distinct (map (\<lambda>i. replicate i CHR ''u'') (rev [1..<21]))"
    by (simp add: distinct_map)
  moreover have "sorted_wrt (\<lambda>i j. j \<le> i) (rev [1..<21::nat])"
    by (simp add: sorted_wrt_rev del: upt_Suc)
  ultimately show ?thesis
    unfolding recents_inv_def fullRecents_list
    by (simp add: sorted_wrt_map recentAt_name recentAt_metAt comp_def del: upt_Suc)
qed

theorem saveToRecent_recents_inv_witness:
  "recents_inv (recents_of fullRecents)
   \<and> list_all (\<lambda>p. rp_metAt p \<le> 21) (recents_of fullRecents)
   \<and> length (recents_of fullRecents) = 20
   \<and> username (profileOf ''new'') \<notin> (\<lambda>p. username (rp_profile p)) ` set (recents_of fullRecents)
   \<and> recents_inv (recents_of (saveToRecent_p2 True 21 (profileOf ''new'') ''peer21'' fullRecents))
   \<and> recents_of (saveToRecent_p1 True 21 (profileOf ''new'') ''peer21'' fullRecents) =
       \<lparr>rp_id = toString 21, rp_peerId = ''peer21'', rp_profile = profileOf ''new'', rp_metAt = 21\<rparr>
       # butlast (recents_of fullRecents)
   \<and> last (recents_of fullRecents) = recentAt 1"
proof -
  have h1: "recents_inv (recents_of fullRecents)" by (rule fullRecents_inv)
  have h2: "\<forall>p\<in>set (recents_of fullRecents). rp_metAt p \<le> 21"
    by (auto simp: fullRecents_list recentAt_metAt simp del: upt_Suc)
  have h3: "length (recents_of fullRecents) = 20"
    by (simp add: fullRecents_list del: upt_Suc)
  have h4: "username (profileOf ''new'') \<notin> (\<lambda>p. username (rp_profile p)) ` set (recents_of fullRecents)"
  proof
    assume "username (profileOf ''new'') \<in> (\<lambda>p. username (rp_profile p)) ` set (recents_of fullRecents)"
    then obtain i where "username (profileOf ''new'') = replicate i CHR ''u''"
      by (auto simp: fullRecents_list recentAt_name simp del: upt_Suc)
    then have "''new'' = replicate i CHR ''u''" by (simp add: profileOf_def)
    then have "CHR ''n'' \<in> set (replicate i CHR ''u'')" by (metis list.set_intros(1))
    then show False by simp
  qed
  have h5: "last (recents_of fullRecents) = recentAt 1"
    by (simp add: fullRecents_list last_map last_rev del: upt_Suc)
  note main = saveToRecent_recents_inv [OF h1 h2, of True "profileOf ''new''" "''peer21''"]
  from main have same: "saveToRecent_p1 True 21 (profileOf ''new'') ''peer21'' fullRecents
      = saveToRecent_p2 True 21 (profileOf ''new'') ''peer21'' fullRecents"
    by (rule conjunct1)
  from main have inv: "recents_inv (recents_of (saveToRecent_p2 True 21 (profileOf ''new'') ''peer21'' fullRecents))"
    by blast
  from main h3 h4 have evict: "recents_of (saveToRecent_p2 True 21 (profileOf ''new'') ''peer21'' fullRecents) =
       \<lparr>rp_id = toString 21, rp_peerId = ''peer21'', rp_profile = profileOf ''new'', rp_metAt = 21\<rparr>
       # butlast (recents_of fullRecents)"
    by blast
  from h2 have h2': "list_all (\<lambda>p. rp_metAt p \<le> 21) (recents_of fullRecents)"
    by (simp only: list_all_iff)
  show ?thesis
    unfolding same using h1 h2' h3 h4 h5 inv evict by blast
qed

section \<open>Friends\<close>

lemma friends_of_update [simp]:
  "friends_of (ls\<lparr>chat_friends := Some l\<rparr>) = l"
  by (simp add: friends_of_def)

lemma has_friend_iff:
  "list_ex (\<lambda>f. f_id f = peerId) l \<longleftrightarrow> peerId \<in> f_id ` set l"
  by (auto simp: list_ex_iff)

lemma saveFriend_existing:
  "peerId \<in> f_id ` set (friends_of (storage st)) \<Longrightarrow> saveFriend ok now profile peerId st = st"
  by (simp add: saveFriend_def Let_def has_friend_iff)

lemma saveFriend_new:
  "peerId \<notin> f_id ` set (friends_of (storage st)) \<Longrightarrow>
   saveFriend True now profile peerId st =
     st\<lparr>storage := (storage st)\<lparr>chat_friends :=
            Some (\<lparr>f_id = peerId, f_profile = profile, f_addedAt = now, f_lastSeen = now\<rparr>
                  # friends_of (storage st))\<rparr>,
        friends := \<lparr>f_id = peerId, f_profile = profile, f_addedAt = now, f_lastSeen = now\<rparr>
                  # friends_of (storage st),
        friendRequests := filter (\<lambda>req. fr_peerId req \<noteq> peerId) (friendRequests st)\<rparr>"
  by (simp add: saveFriend_def Let_def has_friend_iff)

lemma saveFriend_failed: "saveFriend False now profile peerId st = st"
  by (simp add: saveFriend_def Let_def)

lemma friends_inv_saveFriend:
  assumes "friends_inv st"
  shows "friends_inv (saveFriend ok now profile peerId st)"
proof (cases "ok \<and> peerId \<notin> f_id ` set (friends_of (storage st))")
  case True
  then show ?thesis
    using assms by (simp add: saveFriend_new friends_inv_def)
next
  case False
  then have "saveFriend ok now profile peerId st = st"
    by (cases ok) (simp_all add: saveFriend_existing saveFriend_failed)
  then show ?thesis using assms by simp
qed

lemma removeFriend_ok:
  "removeFriend True peerId st =
     st\<lparr>storage := (storage st)\<lparr>chat_friends :=
            Some (filter (\<lambda>f. f_id f \<noteq> peerId) (friends_of (storage st)))\<rparr>,
        friends := filter (\<lambda>f. f_id f \<noteq> peerId) (friends_of (storage st))\<rparr>"
  by (simp add: removeFriend_def Let_def)

lemma removeFriend_failed: "removeFriend False peerId st = st"
  by (simp add: removeFriend_def Let_def)

lemma friends_inv_removeFriend:
  assumes "friends_inv st"
  shows "friends_inv (removeFriend ok peerId st)"
  using assms
  by (cases ok) (simp_all add: removeFriend_ok removeFriend_failed friends_inv_def distinct_map_filter)

lemma map_f_id_touch:
  "map f_id (map (\<lambda>friend. if P friend then friend\<lparr>f_lastSeen := n\<rparr> else friend) fs) = map f_id fs"
  by (induction fs) simp_all

lemma friends_inv_updateFriendsPresence_p2:
  assumes "friends_inv st"
  shows "friends_inv (updateFriendsPresence_p2 ok now st)"
proof -
  have "map f_id (friends (updateFriendsPresence_p2 ok now st)) = map f_id (friends st)"
    unfolding updateFriendsPresence_p2_def Let_def
    by (simp add: map_f_id_touch del: map_map)
  moreover have "map f_id (friends_of (storage (updateFriendsPresence_p2 ok now st)))
      = map f_id (friends_of (storage st))
    \<or> map f_id (friends_of (storage (updateFriendsPresence_p2 ok now st))) = map f_id (friends st)"
    unfolding updateFriendsPresence_p2_def Let_def
    by (simp add: map_f_id_touch del: map_map)
  ultimately show ?thesis
    using assms unfolding friends_inv_def by metis
qed

lemma friends_inv_initial:
  "distinct (map f_id (friends_of ls)) \<Longrightarrow> friends_inv (initial profile ls)"
  by (simp add: friends_inv_def initial_def)

text \<open>
  Claim C9. No writer of the friend list makes two records with the same id:
  \<^verbatim>\<open>saveFriend\<close>, \<^verbatim>\<open>removeFriend\<close> and the refresh of \<^verbatim>\<open>lastSeen\<close> keep the ids of
  the persisted list and of the state distinct. \<^verbatim>\<open>saveFriend\<close> for an id that is
  in the persisted list returns the state as it was, so a \<^verbatim>\<open>friend_accept\<close>
  envelope from a peer who is a friend changes nothing in either hook; and after
  a \<^verbatim>\<open>removeFriend\<close> whose write succeeds no record with the given id is left.
\<close>

theorem friend_list_unique:
  assumes "friends_inv st"
  shows "friends_inv (saveFriend ok now profile peerId st)
       \<and> friends_inv (removeFriend ok peerId st)
       \<and> friends_inv (updateFriendsPresence_p2 ok now st)
       \<and> (peerId \<in> f_id ` set (friends_of (storage st))
            \<longrightarrow> saveFriend ok now profile peerId st = st)
       \<and> (c_peer conn \<in> f_id ` set (friends_of (storage st))
            \<longrightarrow> handleIncomingData_p1 ok now (EFriendAccept profile) conn st = st
              \<and> handleIncomingData_p2 ok now rnd (EFriendAccept profile) conn st = st)
       \<and> (ok \<longrightarrow> peerId \<notin> f_id ` set (friends_of (storage (removeFriend ok peerId st)))
                \<and> peerId \<notin> f_id ` set (friends (removeFriend ok peerId st)))"
proof -
  have "ok \<Longrightarrow> peerId \<notin> f_id ` set (friends_of (storage (removeFriend ok peerId st)))"
    by (auto simp: removeFriend_ok)
  moreover have "ok \<Longrightarrow> peerId \<notin> f_id ` set (friends (removeFriend ok peerId st))"
    by (auto simp: removeFriend_ok)
  ultimately show ?thesis
    using assms friends_inv_saveFriend friends_inv_removeFriend
      friends_inv_updateFriendsPresence_p2 saveFriend_existing
    by simp
qed

lemma oneFriend_friends: "friends_of (storage oneFriend) =
    [\<lparr>f_id = ''a'', f_profile = profileOf ''ann'', f_addedAt = 1, f_lastSeen = 1\<rparr>]"
  by (simp add: oneFriend_def initial_def friends_of_def)

theorem friend_list_unique_witness:
  "friends_inv oneFriend
   \<and> ''a'' \<in> f_id ` set (friends_of (storage oneFriend))
   \<and> saveFriend True 7 (profileOf ''ann'') ''a'' oneFriend = oneFriend
   \<and> handleIncomingData_p1 True 7 (EFriendAccept (profileOf ''ann''))
        \<lparr>c_handle = 3, c_peer = ''a'', c_open = True\<rparr> oneFriend = oneFriend
   \<and> handleIncomingData_p2 True 7 ''0.5'' (EFriendAccept (profileOf ''ann''))
        \<lparr>c_handle = 3, c_peer = ''a'', c_open = True\<rparr> oneFriend = oneFriend
   \<and> ''a'' \<notin> f_id ` set (friends_of (storage (removeFriend True ''a'' oneFriend)))"
proof -
  have h: "friends_inv oneFriend"
    by (simp add: friends_inv_def oneFriend_friends) (simp add: oneFriend_def initial_def)
  have m: "''a'' \<in> f_id ` set (friends_of (storage oneFriend))"
    by (simp add: oneFriend_friends)
  have c: "c_peer \<lparr>c_handle = 3, c_peer = ''a'', c_open = True\<rparr> = ''a''"
    by simp
  note main = friend_list_unique [OF h, of True 7 "profileOf ''ann''" "''a''"
      "\<lparr>c_handle = 3, c_peer = ''a'', c_open = True\<rparr>" "''0.5''"]
  show ?thesis
    using main h m unfolding c by blast
qed

section \<open>Inbound messages\<close>


lemma truthy_Some [simp]: "truthy (Some s) \<longleftrightarrow> s \<noteq> []"
  by (simp add: truthy_def)

lemma truthy_None [simp]: "\<not> truthy None"
  by (simp add: truthy_def)

lemma isMain_connected: "isMain mainConn connected" "\<not> isMain directConn connected"
  by (simp_all add: isMain_def connected_def mainConn_def directConn_def)



text \<open>
  Claim C2 fails on part_002: the message it appends on the main connection has
  no \<^verbatim>\<open>status\<close>, and on a direct connection it sends no acknowledgement.
\<close>

theorem message_p2_counterexample:
  "isMain mainConn connected
   \<and> m_status (last (messages (handleIncomingData_p2 True 1700 ''0.25''
        (EMessage ''hi'' (Some TText) (Some ''m1'')) mainConn connected))) \<noteq> Some Sent
   \<and> \<not> isMain directConn connected
   \<and> effects (handleIncomingData_p2 True 1700 ''0.25''
        (EMessage ''hi'' (Some TText) (Some ''m1'')) directConn connected) = []"
  by (simp add: isMain_connected Let_def emit_def newMessage_def)
    (simp add: connected_def initial_def)

text \<open>
  Claim C2 as amended. For a \<^verbatim>\<open>message\<close> envelope with a non-empty id: on the
  main connection both hooks append exactly one message of the stranger with
  the id of the envelope (its text the payload unless the data type is image or
  audio), part_001 with status \<^verbatim>\<open>sent\<close> and part_002 with no status, and send
  \<^verbatim>\<open>{type: 'seen', messageId}\<close> with that id on the same connection. On a direct
  connection both hooks surface the message as the incoming direct message of
  the sending peer and leave the history alone; part_001 sends the same
  acknowledgement on that connection, part_002 sends nothing.
\<close>

theorem message_with_id:
  assumes "ident \<noteq> []"
  shows "(isMain conn st \<longrightarrow>
            messages (handleIncomingData_p1 ok now (EMessage payload dataType (Some ident)) conn st) =
              messages st @ [newMessage ident now dataType payload (Some Sent)]
          \<and> effects (handleIncomingData_p1 ok now (EMessage payload dataType (Some ident)) conn st) =
              effects st @ [Send (c_handle conn) (ESeen (Some ident))]
          \<and> messages (handleIncomingData_p2 ok now rnd (EMessage payload dataType (Some ident)) conn st) =
              messages st @ [newMessage ident now dataType payload None]
          \<and> effects (handleIncomingData_p2 ok now rnd (EMessage payload dataType (Some ident)) conn st) =
              effects st @ [Send (c_handle conn) (ESeen (Some ident))])
       \<and> (\<not> isMain conn st \<longrightarrow>
            incomingDirectMessage
              (handleIncomingData_p1 ok now (EMessage payload dataType (Some ident)) conn st) =
              Some \<lparr>dm_peerId = c_peer conn,
                    dm_message = newMessage ident now dataType payload (Some Sent)\<rparr>
          \<and> messages (handleIncomingData_p1 ok now (EMessage payload dataType (Some ident)) conn st) =
              messages st
          \<and> effects (handleIncomingData_p1 ok now (EMessage payload dataType (Some ident)) conn st) =
              effects st @ [Send (c_handle conn) (ESeen (Some ident))]
          \<and> incomingDirectMessage
              (handleIncomingData_p2 ok now rnd (EMessage payload dataType (Some ident)) conn st) =
              Some \<lparr>dm_peerId = c_peer conn,
                    dm_message = newMessage ident now dataType payload None\<rparr>
          \<and> messages (handleIncomingData_p2 ok now rnd (EMessage payload dataType (Some ident)) conn st) =
              messages st
          \<and> effects (handleIncomingData_p2 ok now rnd (EMessage payload dataType (Some ident)) conn st) =
              effects st)
       \<and> m_id (newMessage ident now dataType payload s) = ident
       \<and> m_sender (newMessage ident now dataType payload s) = Stranger
       \<and> m_status (newMessage ident now dataType payload s) = s
       \<and> m_text (newMessage ident now dataType payload s) =
           (if dataType = Some TImage \<or> dataType = Some TAudio then None else Some payload)"
  using assms
  by (simp add: Let_def emit_def newMessage_def)

theorem message_with_id_witness:
  "''m1'' \<noteq> []
   \<and> isMain mainConn connected
   \<and> messages (handleIncomingData_p1 True 1700 (EMessage ''hi'' (Some TText) (Some ''m1'')) mainConn connected) =
       messages connected @ [newMessage ''m1'' 1700 (Some TText) ''hi'' (Some Sent)]
   \<and> effects (handleIncomingData_p1 True 1700 (EMessage ''hi'' (Some TText) (Some ''m1'')) mainConn connected) =
       effects connected @ [Send (c_handle mainConn) (ESeen (Some ''m1''))]
   \<and> m_text (newMessage ''m1'' 1700 (Some TText) ''hi'' (Some Sent)) = Some ''hi''
   \<and> \<not> isMain directConn connected
   \<and> effects (handleIncomingData_p1 True 1700 (EMessage ''hi'' (Some TText) (Some ''m1'')) directConn connected) =
       effects connected @ [Send (c_handle directConn) (ESeen (Some ''m1''))]"
proof -
  have h: "''m1'' \<noteq> []" by simp
  note m = message_with_id [OF h, of mainConn connected True 1700 "''hi''" "Some TText" "''0.25''" "Some Sent"]
  note d = message_with_id [OF h, of directConn connected True 1700 "''hi''" "Some TText" "''0.25''" "Some Sent"]
  have t: "m_text (newMessage ''m1'' 1700 (Some TText) ''hi'' (Some Sent)) = Some ''hi''"
    using m by simp
  show ?thesis
    using m d h t isMain_connected by blast
qed

section \<open>Reactions\<close>

lemma addReaction_p2_idem:
  "addReaction_p2 mid e (addReaction_p2 mid e ms) = addReaction_p2 mid e ms"
  by (induction ms) (simp_all add: addReaction_p2_def id_is_def split: option.splits)

lemma addReaction_p1_twice:
  "addReaction_p1 mid e (addReaction_p1 mid e ms) =
     map (\<lambda>m. if id_is m mid
               then m\<lparr>m_reactions :=
                        Some ((case m_reactions m of None \<Rightarrow> [] | Some rs \<Rightarrow> rs)
                              @ [\<lparr>r_emoji = e, r_sender = Stranger\<rparr>,
                                 \<lparr>r_emoji = e, r_sender = Stranger\<rparr>])\<rparr>
               else m) ms"
  by (induction ms) (simp_all add: addReaction_p1_def id_is_def)

lemma isMain_reaction_p1 [simp]:
  "isMain conn (handleIncomingData_p1 ok now (EReaction e mid) conn st) = isMain conn st"
  by (simp add: isMain_def Let_def)

lemma isMain_reaction_p2 [simp]:
  "isMain conn (handleIncomingData_p2 ok now rnd (EReaction e mid) conn st) = isMain conn st"
  by (simp add: isMain_def Let_def)

lemma reaction_p2_idem:
  "handleIncomingData_p2 ok' now' rnd' (EReaction e mid) conn
     (handleIncomingData_p2 ok now rnd (EReaction e mid) conn st) =
   handleIncomingData_p2 ok now rnd (EReaction e mid) conn st"
proof (cases "truthy mid")
  case False
  then show ?thesis by simp
next
  case True
  show ?thesis
  proof (cases "isMain conn st")
    case m: True
    have "isMain conn (st\<lparr>incomingReaction := x, messages := y\<rparr>)" for x y
      using m by (simp add: isMain_def)
    then show ?thesis
      using True m by (simp add: Let_def addReaction_p2_idem)
  next
    case m: False
    have "\<not> isMain conn (st\<lparr>incomingReaction := x\<rparr>)" for x
      using m by (simp add: isMain_def)
    then show ?thesis
      using True m by (simp add: Let_def)
  qed
qed

lemma reaction_p1_twice:
  assumes "isMain conn st" "truthy mid"
  shows "messages (handleIncomingData_p1 ok' now' (EReaction e mid) conn
           (handleIncomingData_p1 ok now (EReaction e mid) conn st)) =
         addReaction_p1 mid e (addReaction_p1 mid e (messages st))"
proof -
  have "isMain conn (st\<lparr>incomingReaction := x, messages := y\<rparr>)" for x y
    using assms(1) by (simp add: isMain_def)
  then show ?thesis
    using assms by (simp add: Let_def)
qed

text \<open>
  Claim C4 fails on part_001: its \<^verbatim>\<open>reaction\<close> branch appends without looking at
  the reactions already there.
\<close>

theorem reaction_p1_counterexample:
  "isMain mainConn connected
   \<and> messages (handleIncomingData_p1 True 1701 (EReaction ''+1'' (Some ''m0'')) mainConn
       (handleIncomingData_p1 True 1700 (EReaction ''+1'' (Some ''m0'')) mainConn connected))
     \<noteq> messages (handleIncomingData_p1 True 1700 (EReaction ''+1'' (Some ''m0'')) mainConn connected)
   \<and> map m_reactions
       (messages (handleIncomingData_p1 True 1701 (EReaction ''+1'' (Some ''m0'')) mainConn
         (handleIncomingData_p1 True 1700 (EReaction ''+1'' (Some ''m0'')) mainConn connected)))
     = [Some [\<lparr>r_emoji = ''+1'', r_sender = Stranger\<rparr>, \<lparr>r_emoji = ''+1'', r_sender = Stranger\<rparr>]]"
proof -
  have ms: "messages connected = [strangerText ''m0'' ''hello'']"
    by (simp add: connected_def)
  have two: "messages (handleIncomingData_p1 True 1701 (EReaction ''+1'' (Some ''m0'')) mainConn
       (handleIncomingData_p1 True 1700 (EReaction ''+1'' (Some ''m0'')) mainConn connected))
     = addReaction_p1 (Some ''m0'') ''+1'' (addReaction_p1 (Some ''m0'') ''+1'' (messages connected))"
    by (rule reaction_p1_twice) (simp_all add: isMain_connected)
  have one: "messages (handleIncomingData_p1 True 1700 (EReaction ''+1'' (Some ''m0'')) mainConn connected)
     = addReaction_p1 (Some ''m0'') ''+1'' (messages connected)"
    by (simp add: isMain_connected Let_def)
  show ?thesis
    unfolding two one ms
    by (simp add: isMain_connected addReaction_p1_def id_is_def strangerText_def newMessage_def)
qed

lemma list_ex_count: "list_ex P xs \<longleftrightarrow> length (filter P xs) \<noteq> 0"
  by (induction xs) simp_all

lemma strangerCount_addReaction_p2:
  "map (strangerCount e) (addReaction_p2 mid e ms) =
     map (\<lambda>m. if id_is m mid \<and> strangerCount e m = 0 then 1 else strangerCount e m) ms"
  by (induction ms)
    (auto simp: addReaction_p2_def strangerCount_def id_is_def list_ex_count
      split: option.splits)

text \<open>
  Claim C4 as amended. In part_002 handling the same \<^verbatim>\<open>reaction\<close> envelope a
  second time leaves the state as the first handling made it, on the main
  connection and on a direct one: a message with the referenced id that carries
  no reaction of the stranger with the emoji gets one, and a message that
  carries some keeps the number it has. In part_001 each handling on the main
  connection appends one more entry to every message with the referenced id, so
  two handlings leave two equal entries.
\<close>

theorem reaction_twice:
  assumes "isMain conn st" and "truthy mid"
  shows "handleIncomingData_p2 ok' now' rnd' (EReaction e mid) conn
           (handleIncomingData_p2 ok now rnd (EReaction e mid) conn st) =
         handleIncomingData_p2 ok now rnd (EReaction e mid) conn st
       \<and> messages (handleIncomingData_p2 ok now rnd (EReaction e mid) conn st) =
           addReaction_p2 mid e (messages st)
       \<and> addReaction_p2 mid e (addReaction_p2 mid e (messages st)) =
           addReaction_p2 mid e (messages st)
       \<and> map (strangerCount e) (addReaction_p2 mid e (messages st)) =
           map (\<lambda>m. if id_is m mid \<and> strangerCount e m = 0 then 1 else strangerCount e m)
               (messages st)
       \<and> messages (handleIncomingData_p1 ok' now' (EReaction e mid) conn
           (handleIncomingData_p1 ok now (EReaction e mid) conn st)) =
         map (\<lambda>m. if id_is m mid
                   then m\<lparr>m_reactions :=
                            Some ((case m_reactions m of None \<Rightarrow> [] | Some rs \<Rightarrow> rs)
                                  @ [\<lparr>r_emoji = e, r_sender = Stranger\<rparr>,
                                     \<lparr>r_emoji = e, r_sender = Stranger\<rparr>])\<rparr>
                   else m) (messages st)"
proof -
  have "messages (handleIncomingData_p2 ok now rnd (EReaction e mid) conn st) =
           addReaction_p2 mid e (messages st)"
    using assms by (simp add: Let_def)
  then show ?thesis
    using reaction_p2_idem addReaction_p2_idem reaction_p1_twice [OF assms] addReaction_p1_twice
      strangerCount_addReaction_p2
    by simp
qed

theorem reaction_twice_witness:
  "isMain mainConn connected \<and> truthy (Some ''m0'')
   \<and> handleIncomingData_p2 True 1701 ''0.5'' (EReaction ''+1'' (Some ''m0'')) mainConn
       (handleIncomingData_p2 True 1700 ''0.25'' (EReaction ''+1'' (Some ''m0'')) mainConn connected) =
     handleIncomingData_p2 True 1700 ''0.25'' (EReaction ''+1'' (Some ''m0'')) mainConn connected
   \<and> map m_reactions
       (messages (handleIncomingData_p2 True 1700 ''0.25'' (EReaction ''+1'' (Some ''m0'')) mainConn connected))
     = [Some [\<lparr>r_emoji = ''+1'', r_sender = Stranger\<rparr>]]"
proof -
  have h1: "isMain mainConn connected" by (rule isMain_connected)
  have h2: "truthy (Some ''m0'')" by simp
  note main = reaction_twice [OF h1 h2, of True 1701 "''0.5''" "''+1''" True 1700 "''0.25''"]
  have ms: "messages connected = [strangerText ''m0'' ''hello'']"
    by (simp add: connected_def)
  from main have "messages (handleIncomingData_p2 True 1700 ''0.25'' (EReaction ''+1'' (Some ''m0'')) mainConn connected)
      = addReaction_p2 (Some ''m0'') ''+1'' (messages connected)"
    by blast
  then have r: "map m_reactions
       (messages (handleIncomingData_p2 True 1700 ''0.25'' (EReaction ''+1'' (Some ''m0'')) mainConn connected))
     = [Some [\<lparr>r_emoji = ''+1'', r_sender = Stranger\<rparr>]]"
    by (simp add: ms addReaction_p2_def id_is_def strangerText_def newMessage_def)
  show ?thesis
    using main h1 h2 r by blast
qed

section \<open>Envelopes that reference a message\<close>

lemma markSeen_absent: "absent mid ms \<Longrightarrow> markSeen mid ms = ms"
  by (induction ms) (auto simp: markSeen_def absent_def id_is_def split: option.splits)

lemma addReaction_p1_absent: "absent mid ms \<Longrightarrow> addReaction_p1 mid e ms = ms"
  by (induction ms) (auto simp: addReaction_p1_def absent_def id_is_def split: option.splits)

lemma addReaction_p2_absent: "absent mid ms \<Longrightarrow> addReaction_p2 mid e ms = ms"
  by (induction ms) (auto simp: addReaction_p2_def absent_def id_is_def split: option.splits)

lemma editMessages_absent:
  "absent mid ms \<Longrightarrow> truthy mid \<Longrightarrow> editMessages mid p ms = ms"
  by (induction ms) (auto simp: editMessages_def absent_def id_is_def split: option.splits)

lemma editMessages_missing:
  "\<not> truthy mid \<Longrightarrow>
   editMessages mid p ms =
     map (\<lambda>msg. if m_sender msg = Stranger \<and> m_type msg = TText
                 then msg\<lparr>m_text := Some p, m_isEdited := True\<rparr> else msg) ms"
  by (simp add: editMessages_def)

lemma error_p1: "error (handleIncomingData_p1 ok now d conn st) = error st"
  by (cases d) (simp_all add: Let_def emit_def enqueueFriendRequest_def saveFriend_def)

lemma error_p2: "error (handleIncomingData_p2 ok now rnd d conn st) = error st"
  by (cases d) (simp_all add: Let_def emit_def enqueueFriendRequest_def saveFriend_def)

text \<open>
  Claim C6 fails for \<^verbatim>\<open>edit_message\<close>: without a \<^verbatim>\<open>messageId\<close> both hooks rewrite
  every text message of the stranger.
\<close>

theorem edit_without_id_counterexample:
  "isMain mainConn connected
   \<and> absent None (messages connected)
   \<and> messages (handleIncomingData_p1 True 1700 (EEditMessage ''bye'' None) mainConn connected)
       \<noteq> messages connected
   \<and> messages (handleIncomingData_p2 True 1700 ''0.25'' (EEditMessage ''bye'' None) mainConn connected)
       \<noteq> messages connected
   \<and> map m_text
       (messages (handleIncomingData_p2 True 1700 ''0.25'' (EEditMessage ''bye'' None) mainConn connected))
       = [Some ''bye'']
   \<and> map m_text (messages connected) = [Some ''hello'']"
proof -
  have ms: "messages connected = [strangerText ''m0'' ''hello'']"
    by (simp add: connected_def)
  show ?thesis
    by (simp add: isMain_connected ms absent_def editMessages_def strangerText_def newMessage_def)
qed

text \<open>
  Claim C6 as amended. When the referenced id is missing from the envelope or
  is the id of no message of the history: a \<^verbatim>\<open>seen\<close> envelope leaves the whole
  state unchanged; a \<^verbatim>\<open>reaction\<close> envelope leaves the history unchanged (and the
  whole state when the id is missing or empty); an \<^verbatim>\<open>edit_message\<close> envelope
  with a non-empty id leaves the whole state unchanged. An \<^verbatim>\<open>edit_message\<close>
  envelope whose id is missing or empty, on the main connection, sets the text
  of every text message of the stranger. No envelope changes the error shown.
\<close>

theorem unknown_reference_ignored:
  assumes "absent mid (messages st)"
  shows "handleIncomingData_p1 ok now (ESeen mid) conn st = st
       \<and> handleIncomingData_p2 ok now rnd (ESeen mid) conn st = st
       \<and> messages (handleIncomingData_p1 ok now (EReaction e mid) conn st) = messages st
       \<and> messages (handleIncomingData_p2 ok now rnd (EReaction e mid) conn st) = messages st
       \<and> (\<not> truthy mid \<longrightarrow>
            handleIncomingData_p1 ok now (EReaction e mid) conn st = st
          \<and> handleIncomingData_p2 ok now rnd (EReaction e mid) conn st = st)
       \<and> (truthy mid \<longrightarrow>
            handleIncomingData_p1 ok now (EEditMessage p mid) conn st = st
          \<and> handleIncomingData_p2 ok now rnd (EEditMessage p mid) conn st = st)
       \<and> (\<not> truthy mid \<and> isMain conn st \<longrightarrow>
            messages (handleIncomingData_p1 ok now (EEditMessage p mid) conn st) =
              map (\<lambda>msg. if m_sender msg = Stranger \<and> m_type msg = TText
                          then msg\<lparr>m_text := Some p, m_isEdited := True\<rparr> else msg)
                  (messages st)
          \<and> messages (handleIncomingData_p2 ok now rnd (EEditMessage p mid) conn st) =
              map (\<lambda>msg. if m_sender msg = Stranger \<and> m_type msg = TText
                          then msg\<lparr>m_text := Some p, m_isEdited := True\<rparr> else msg)
                  (messages st))
       \<and> error (handleIncomingData_p1 ok now d conn st) = error st
       \<and> error (handleIncomingData_p2 ok now rnd d conn st) = error st"
proof -
  note a = assms
  have seen1: "handleIncomingData_p1 ok now (ESeen mid) conn st = st"
    by (simp add: markSeen_absent [OF a])
  have seen2: "handleIncomingData_p2 ok now rnd (ESeen mid) conn st = st"
    by (simp add: markSeen_absent [OF a])
  have re1: "messages (handleIncomingData_p1 ok now (EReaction e mid) conn st) = messages st"
    by (simp add: Let_def addReaction_p1_absent [OF a])
  have re2: "messages (handleIncomingData_p2 ok now rnd (EReaction e mid) conn st) = messages st"
    by (simp add: Let_def addReaction_p2_absent [OF a])
  have ed: "truthy mid \<Longrightarrow> handleIncomingData_p1 ok now (EEditMessage p mid) conn st = st
          \<and> handleIncomingData_p2 ok now rnd (EEditMessage p mid) conn st = st"
    by (simp add: editMessages_absent [OF a])
  have ed': "\<not> truthy mid \<Longrightarrow> isMain conn st \<Longrightarrow>
      messages (handleIncomingData_p1 ok now (EEditMessage p mid) conn st) =
        editMessages mid p (messages st)
    \<and> messages (handleIncomingData_p2 ok now rnd (EEditMessage p mid) conn st) =
        editMessages mid p (messages st)"
    by simp
  show ?thesis
    using seen1 seen2 re1 re2 ed ed' editMessages_missing [of mid p "messages st"]
      error_p1 error_p2
    by simp
qed

theorem unknown_reference_ignored_witness:
  "absent (Some ''zz'') (messages connected)
   \<and> truthy (Some ''zz'')
   \<and> handleIncomingData_p1 True 1700 (ESeen (Some ''zz'')) mainConn connected = connected
   \<and> messages (handleIncomingData_p2 True 1700 ''0.25'' (EReaction ''+1'' (Some ''zz'')) mainConn connected)
       = messages connected
   \<and> handleIncomingData_p2 True 1700 ''0.25'' (EEditMessage ''bye'' (Some ''zz'')) mainConn connected
       = connected"
proof -
  have ms: "messages connected = [strangerText ''m0'' ''hello'']"
    by (simp add: connected_def)
  have h: "absent (Some ''zz'') (messages connected)"
    by (simp add: ms absent_def strangerText_def newMessage_def)
  have t: "truthy (Some ''zz'')" by simp
  note main = unknown_reference_ignored [OF h, of True 1700 mainConn "''0.25''" "''+1''" "''bye''"]
  show ?thesis
    using main h t by blast
qed

section \<open>The matchmaking sort\<close>










section \<open>Whom the matchmaker calls\<close>

lemma hd_insort_key:
  "hd (insort_key f x ys) = (if ys = [] \<or> f x \<le> f (hd ys) then x else hd ys)"
  by (cases ys) simp_all

lemma insort_key_nonempty: "insort_key f x ys \<noteq> []"
  by (cases ys) simp_all

lemma sort_key_nonempty: "xs \<noteq> [] \<Longrightarrow> sort_key f xs \<noteq> []"
  by (cases xs) (simp_all add: insort_key_nonempty)

text \<open>The head of a stable sort is the first element of least key.\<close>

lemma hd_sort_key:
  "xs \<noteq> [] \<Longrightarrow>
   find (\<lambda>x. \<forall>y\<in>set xs. f x \<le> f y) xs = Some (hd (sort_key f xs))"
proof (induction xs)
  case Nil
  then show ?case by simp
next
  case (Cons x xs)
  show ?case
  proof (cases "xs = []")
    case True
    then show ?thesis by simp
  next
    case False
    let ?h = "hd (sort_key f xs)"
    have ih: "find (\<lambda>z. \<forall>y\<in>set xs. f z \<le> f y) xs = Some ?h"
      using Cons.IH False by simp
    then have h_in: "?h \<in> set xs" and h_min: "\<forall>y\<in>set xs. f ?h \<le> f y"
      by (auto simp: find_Some_iff)
    have ne: "sort_key f xs \<noteq> []"
      using False by (rule sort_key_nonempty)
    show ?thesis
    proof (cases "f x \<le> f ?h")
      case True
      then have "\<forall>y\<in>set (x # xs). f x \<le> f y"
        using h_min by auto
      then show ?thesis
        using True ne by (simp add: hd_insort_key)
    next
      case gt: False
      let ?P = "\<lambda>z. \<forall>y\<in>set (x # xs). f z \<le> f y"
      have not_x: "\<not> ?P x"
        using gt h_in by auto
      have "find ?P xs = find (\<lambda>z. \<forall>y\<in>set xs. f z \<le> f y) xs"
      proof (rule find_cong [OF refl])
        fix z assume "z \<in> set xs"
        have "f z \<le> f x" if "\<forall>y\<in>set xs. f z \<le> f y"
        proof -
          from that h_in have "f z \<le> f ?h" by blast
          moreover from gt have "f ?h \<le> f x" by simp
          ultimately show ?thesis by (rule order_trans)
        qed
        then show "?P z = (\<forall>y\<in>set xs. f z \<le> f y)"
          by auto
      qed
      then have "find ?P (x # xs) = Some ?h"
        using not_x ih by (simp only: find.simps if_False)
      moreover have "hd (sort_key f (x # xs)) = ?h"
        using gt ne by (simp add: hd_insort_key)
      ultimately show ?thesis by (simp only:)
    qed
  qed
qed

lemma find_filter_conj:
  "find (\<lambda>x. Q x \<and> P x) xs = find P (filter Q xs)"
  by (induction xs) simp_all

lemma oldestWaiting_sorted:
  "oldestWaiting us =
     (case sortedWaiters us of [] \<Rightarrow> None | oldestWaiter # rest \<Rightarrow> Some oldestWaiter)"
proof (cases "filter (\<lambda>u. ps_status u = Waiting) us = []")
  case True
  then have "oldestWaiting us = None"
    by (auto simp: oldestWaiting_def find_None_iff filter_empty_conv)
  then show ?thesis
    using True by (simp add: sortedWaiters_def sortByTimestamp_def)
next
  case False
  let ?ws = "filter (\<lambda>u. ps_status u = Waiting) us"
  have "oldestWaiting us = find (\<lambda>u. \<forall>v\<in>set ?ws. ps_timestamp u \<le> ps_timestamp v) ?ws"
    unfolding oldestWaiting_def find_filter_conj [symmetric]
    by (rule find_cong) (auto simp: list_all_iff)
  also have "\<dots> = Some (hd (sort_key ps_timestamp ?ws))"
    using False by (rule hd_sort_key)
  finally show ?thesis
    using sort_key_nonempty [OF False, of ps_timestamp]
    by (simp add: sortedWaiters_def sortByTimestamp_def split: list.splits)
qed

lemma waitingAt_simps [simp]:
  "ps_peerId (waitingAt p t) = p" "ps_status (waitingAt p t) = Waiting"
  "ps_timestamp (waitingAt p t) = t"
  by (simp_all add: waitingAt_def)

lemma connects_snoc:
  "connects (es @ [e]) = connects es @ (case e of Connect target m \<Rightarrow> [target] | _ \<Rightarrow> [])"
  by (induction es rule: connects.induct) (simp_all split: effect.splits)

lemma connects_setupConnection_p1:
  "connects (effects (setupConnection_p1 now conn m st)) = connects (effects st)"
  by (simp add: setupConnection_p1_def emit_def connects_snoc Let_def)

lemma connects_setupConnection_p2:
  "connects (effects (setupConnection_p2 now conn m st)) = connects (effects st)"
  by (simp add: setupConnection_p2_def emit_def connects_snoc Let_def)

lemma attempt_connects_p1:
  "peerRef st \<Longrightarrow>
   connects (effects (attempt setupConnection_p1 timeout res now target st))
     = connects (effects st) @ [target]"
  by (cases res)
    (simp_all add: attempt_def Let_def emit_def connects_snoc connects_setupConnection_p1)

lemma attempt_connects_p2:
  "peerRef st \<Longrightarrow>
   connects (effects (attempt setupConnection_p2 timeout res now target st))
     = connects (effects st) @ [target]"
  by (cases res)
    (simp_all add: attempt_def Let_def emit_def connects_snoc connects_setupConnection_p2)

lemma presenceSync_p2_connects:
  assumes "peerRef st" "\<not> isMatchmakerRef st"
    and "case mainConnRef st of None \<Rightarrow> True | Some c \<Rightarrow> \<not> c_open c"
  shows "connects (effects (presenceSync_p2 res now myId allUsers st)) =
           connects (effects st)
           @ (case oldestWaiting allUsers of
                None \<Rightarrow> []
              | Some u \<Rightarrow> if ps_peerId u \<noteq> myId then [ps_peerId u] else [])"
proof -
  have guard: "\<not> (isMatchmakerRef (st\<lparr>onlineUsers := allUsers\<rparr>)
      \<or> (case mainConnRef (st\<lparr>onlineUsers := allUsers\<rparr>) of None \<Rightarrow> False | Some c \<Rightarrow> c_open c))"
    using assms(2,3) by (simp split: option.splits)
  have peer: "peerRef (st\<lparr>onlineUsers := allUsers\<rparr>)"
    using assms(1) by simp
  show ?thesis
    unfolding presenceSync_p2_def Let_def oldestWaiting_sorted
    by (simp only: guard if_False)
      (simp add: attempt_connects_p2 [OF peer] split: list.splits)
qed

lemma matchmakingTick_p1_connects:
  assumes "peerRef st" "\<not> isMatchmakerRef st"
    and "status st = SEARCHING" "myPeerId st = Some me" "me \<noteq> []" "channelRef st"
    and "mainConnRef st = None"
  shows "connects (effects (matchmakingTick_p1 res now (presenceSync_p1 allUsers st))) =
           connects (effects st)
           @ (case oldestWaiting (filter (\<lambda>u. ps_peerId u \<noteq> me) allUsers) of
                None \<Rightarrow> []
              | Some u \<Rightarrow> [ps_peerId u])"
proof -
  let ?st = "presenceSync_p1 allUsers st"
  have guard: "\<not> (status ?st \<noteq> SEARCHING \<or> \<not> truthy (myPeerId ?st) \<or> \<not> channelRef ?st
         \<or> isMatchmakerRef ?st \<or> mainConnRef ?st \<noteq> None)"
    using assms by (simp add: presenceSync_p1_def)
  have peer: "peerRef ?st"
    using assms(1) by (simp add: presenceSync_p1_def)
  have me: "the (myPeerId ?st) = me" and users: "onlineUsers ?st = allUsers"
    and eff: "effects ?st = effects st"
    using assms(4) by (simp_all add: presenceSync_p1_def)
  have w: "waiters me allUsers = sortedWaiters (filter (\<lambda>u. ps_peerId u \<noteq> me) allUsers)"
    by (simp add: waiters_def sortedWaiters_def conj_commute)
  show ?thesis
    unfolding matchmakingTick_p1_def oldestWaiting_sorted
    by (simp only: guard if_False me users w)
      (simp add: attempt_connects_p1 [OF peer] eff split: list.splits)
qed

text \<open>
  Claim C1 fails on part_001: it removes its own entry before it sorts, so a
  client that is itself the oldest waiter calls the oldest of the others.
\<close>

theorem oldest_waiter_counterexample:
  "status searching = SEARCHING \<and> mainConnRef searching = None
   \<and> \<not> isMatchmakerRef searching \<and> myPeerId searching = Some ''me''
   \<and> oldestWaiting [waitingAt ''me'' 100, waitingAt ''other'' 200] = Some (waitingAt ''me'' 100)
   \<and> connects (effects (matchmakingTick_p1 (Connection 7) 1000
        (presenceSync_p1 [waitingAt ''me'' 100, waitingAt ''other'' 200] searching)))
       = [''other'']"
proof -
  have s: "peerRef searching" "\<not> isMatchmakerRef searching" "status searching = SEARCHING"
    "myPeerId searching = Some ''me''" "channelRef searching" "mainConnRef searching = None"
    "effects searching = []"
    by (simp_all add: searching_def initial_def)
  have o: "oldestWaiting [waitingAt ''me'' 100, waitingAt ''other'' 200] = Some (waitingAt ''me'' 100)"
    by (simp add: oldestWaiting_def)
  have o': "oldestWaiting [waitingAt ''other'' 200] = Some (waitingAt ''other'' 200)"
    by (simp add: oldestWaiting_def)
  have "connects (effects (matchmakingTick_p1 (Connection 7) 1000
        (presenceSync_p1 [waitingAt ''me'' 100, waitingAt ''other'' 200] searching)))
       = [''other'']"
    by (subst matchmakingTick_p1_connects [where me = "''me''"])
      (simp_all add: s o')
  then show ?thesis
    using s o by simp
qed

text \<open>
  Claim C1 as amended. With a peer attached and no attempt in flight:
  part_002, on every snapshot handled while no main connection is open, makes a
  connection attempt exactly when the oldest waiting entry of the snapshot (the
  first of least timestamp) belongs to another peer, and calls that peer; when
  the client itself is the oldest waiter, or nobody waits, it calls nobody.
  part_001, while searching with no main connection, makes an attempt exactly
  when some waiting entry belongs to another peer, and calls the oldest waiting
  entry among the other peers, also when the client itself is older.
\<close>

theorem matchmaking_target:
  assumes "peerRef st" and "\<not> isMatchmakerRef st"
  shows "((case mainConnRef st of None \<Rightarrow> True | Some c \<Rightarrow> \<not> c_open c) \<longrightarrow>
            connects (effects (presenceSync_p2 res now myId allUsers st)) =
              connects (effects st)
              @ (case oldestWaiting allUsers of
                   None \<Rightarrow> []
                 | Some u \<Rightarrow> if ps_peerId u \<noteq> myId then [ps_peerId u] else []))
       \<and> (status st = SEARCHING \<and> myPeerId st = Some me \<and> me \<noteq> [] \<and> channelRef st
            \<and> mainConnRef st = None \<longrightarrow>
            connects (effects (matchmakingTick_p1 res now (presenceSync_p1 allUsers st))) =
              connects (effects st)
              @ (case oldestWaiting (filter (\<lambda>u. ps_peerId u \<noteq> me) allUsers) of
                   None \<Rightarrow> []
                 | Some u \<Rightarrow> [ps_peerId u]))"
  using presenceSync_p2_connects [OF assms] matchmakingTick_p1_connects [OF assms]
  by blast

theorem matchmaking_target_witness:
  "peerRef searching \<and> \<not> isMatchmakerRef searching \<and> mainConnRef searching = None
   \<and> oldestWaiting [waitingAt ''other'' 100, waitingAt ''me'' 200] = Some (waitingAt ''other'' 100)
   \<and> connects (effects (presenceSync_p2 (Connection 7) 1000 ''me''
        [waitingAt ''other'' 100, waitingAt ''me'' 200] searching)) = [''other'']
   \<and> connects (effects (matchmakingTick_p1 (Connection 7) 1000
        (presenceSync_p1 [waitingAt ''other'' 100, waitingAt ''me'' 200] searching))) = [''other'']"
proof -
  have s: "peerRef searching" "\<not> isMatchmakerRef searching" "status searching = SEARCHING"
    "myPeerId searching = Some ''me''" "channelRef searching" "mainConnRef searching = None"
    "effects searching = []"
    by (simp_all add: searching_def initial_def)
  have o: "oldestWaiting [waitingAt ''other'' 100, waitingAt ''me'' 200] = Some (waitingAt ''other'' 100)"
    by (simp add: oldestWaiting_def)
  have o': "oldestWaiting [waitingAt ''other'' 100] = Some (waitingAt ''other'' 100)"
    by (simp add: oldestWaiting_def)
  note main = matchmaking_target [OF s(1,2), of "Connection 7" 1000 "''me''"
      "[waitingAt ''other'' 100, waitingAt ''me'' 200]" "''me''"]
  from main have "connects (effects (presenceSync_p2 (Connection 7) 1000 ''me''
        [waitingAt ''other'' 100, waitingAt ''me'' 200] searching)) = [''other'']"
    by (simp add: s o)
  moreover from main have "connects (effects (matchmakingTick_p1 (Connection 7) 1000
        (presenceSync_p1 [waitingAt ''other'' 100, waitingAt ''me'' 200] searching))) = [''other'']"
    by (simp add: s o')
  ultimately show ?thesis
    using s o by simp
qed

section \<open>Ending the main session\<close>







lemma disconnect_p2_cleanup:
  "\<exists>ls. disconnect_p2 ok now st = (cleanupMain_p2 now (st\<lparr>storage := ls\<rparr>))\<lparr>messages := []\<rparr>"
proof (cases "partnerProfile st")
  case None
  then have "disconnect_p2 ok now st = (cleanupMain_p2 now (st\<lparr>storage := storage st\<rparr>))\<lparr>messages := []\<rparr>"
    by (simp add: disconnect_p2_def)
  then show ?thesis ..
next
  case (Some p)
  show ?thesis
  proof (cases "mainConnRef st")
    case None
    then have "disconnect_p2 ok now st = (cleanupMain_p2 now (st\<lparr>storage := storage st\<rparr>))\<lparr>messages := []\<rparr>"
      using Some by (simp add: disconnect_p2_def)
    then show ?thesis ..
  next
    case c: (Some c)
    show ?thesis
    proof (cases "c_peer c \<noteq> []")
      case True
      then have "disconnect_p2 ok now st =
          (cleanupMain_p2 now (st\<lparr>storage := saveToRecent_p2 ok now p (c_peer c) (storage st)\<rparr>))
            \<lparr>messages := []\<rparr>"
        using Some c by (simp add: disconnect_p2_def)
      then show ?thesis ..
    next
      case False
      then have "disconnect_p2 ok now st = (cleanupMain_p2 now (st\<lparr>storage := storage st\<rparr>))\<lparr>messages := []\<rparr>"
        using Some c by (simp add: disconnect_p2_def)
      then show ?thesis ..
    qed
  qed
qed







section \<open>Typing and recording indicators\<close>

lemma fireTimers_typing:
  "partnerTyping (fireTimers t st) = partnerTyping (expireTyping t st)"
  "typingTimeoutRef (fireTimers t st) = typingTimeoutRef (expireTyping t st)"
  by (simp_all add: fireTimers_def expireRecording_def fireClose_def
      fireConnectionTimeout_def emit_def Let_def split: option.splits)

lemma fireTimers_recording:
  "partnerRecording (fireTimers t st) = partnerRecording (expireRecording t st)"
  "recordingTimeoutRef (fireTimers t st) = recordingTimeoutRef (expireRecording t st)"
  by (simp_all add: fireTimers_def expireTyping_def expireRecording_def fireClose_def
      fireConnectionTimeout_def emit_def Let_def split: option.splits)

lemma typingBounded_fireTimers:
  "typingBounded D st \<Longrightarrow> typingBounded D (fireTimers t st)"
  by (simp add: typingBounded_def fireTimers_typing expireTyping_def split: option.splits if_splits)

lemma recordingBounded_fireTimers:
  "recordingBounded D st \<Longrightarrow> recordingBounded D (fireTimers t st)"
  by (simp add: recordingBounded_def fireTimers_recording expireRecording_def
      split: option.splits if_splits)

lemma typing_untouched_p2:
  assumes "d \<noteq> ETyping True" "d \<noteq> ETyping False"
  shows "typingBounded D st \<Longrightarrow> typingBounded D (handleIncomingData_p2 ok now rnd d conn st)"
  using assms
  by (cases d)
    (simp_all add: typingBounded_def Let_def emit_def enqueueFriendRequest_def saveFriend_def)

lemma recording_untouched_p2:
  assumes "d \<noteq> ERecording True" "d \<noteq> ERecording False"
  shows "recordingBounded D st \<Longrightarrow> recordingBounded D (handleIncomingData_p2 ok now rnd d conn st)"
  using assms
  by (cases d)
    (simp_all add: recordingBounded_def Let_def emit_def enqueueFriendRequest_def saveFriend_def)

lemma disconnect_p2_flags:
  "partnerTyping (disconnect_p2 ok now st) = False"
  "partnerRecording (disconnect_p2 ok now st) = False"
proof -
  obtain ls where d: "disconnect_p2 ok now st = (cleanupMain_p2 now (st\<lparr>storage := ls\<rparr>))\<lparr>messages := []\<rparr>"
    using disconnect_p2_cleanup by blast
  show "partnerTyping (disconnect_p2 ok now st) = False"
    "partnerRecording (disconnect_p2 ok now st) = False"
    unfolding d by (simp_all add: cleanupMain_p2_def Let_def)
qed

lemma typingBounded_handle_p2:
  "\<not> isTyping ev \<Longrightarrow> typingBounded D st \<Longrightarrow> typingBounded D (handle_p2 t ev st)"
proof (cases ev)
  case (Data ok rnd d conn)
  assume "\<not> isTyping ev" "typingBounded D st"
  moreover from this Data have "d \<noteq> ETyping True" "d \<noteq> ETyping False" by auto
  ultimately show ?thesis
    using Data by (simp add: typing_untouched_p2)
next
  case (UserDisconnect ok)
  then show ?thesis
    by (simp add: typingBounded_def disconnect_p2_flags)
qed

lemma recordingBounded_handle_p2:
  "\<not> isRecording ev \<Longrightarrow> recordingBounded D st \<Longrightarrow> recordingBounded D (handle_p2 t ev st)"
proof (cases ev)
  case (Data ok rnd d conn)
  assume "\<not> isRecording ev" "recordingBounded D st"
  moreover from this Data have "d \<noteq> ERecording True" "d \<noteq> ERecording False" by auto
  ultimately show ?thesis
    using Data by (simp add: recording_untouched_p2)
next
  case (UserDisconnect ok)
  then show ?thesis
    by (simp add: recordingBounded_def disconnect_p2_flags)
qed

lemma typingBounded_run_p2:
  "list_all (\<lambda>(t, ev). \<not> isTyping ev) evs \<Longrightarrow> typingBounded D st \<Longrightarrow>
   typingBounded D (run_p2 st evs)"
proof (induction evs arbitrary: st)
  case Nil
  then show ?case by simp
next
  case (Cons e evs)
  obtain t ev where e: "e = (t, ev)" by (cases e)
  from Cons.prems e have "\<not> isTyping ev" "list_all (\<lambda>(t, ev). \<not> isTyping ev) evs"
    by simp_all
  moreover have "typingBounded D (handle_p2 t ev (fireTimers t st))"
    using \<open>\<not> isTyping ev\<close> Cons.prems(2)
    by (intro typingBounded_handle_p2 typingBounded_fireTimers)
  ultimately show ?case
    using Cons.IH e by simp
qed

lemma recordingBounded_run_p2:
  "list_all (\<lambda>(t, ev). \<not> isRecording ev) evs \<Longrightarrow> recordingBounded D st \<Longrightarrow>
   recordingBounded D (run_p2 st evs)"
proof (induction evs arbitrary: st)
  case Nil
  then show ?case by simp
next
  case (Cons e evs)
  obtain t ev where e: "e = (t, ev)" by (cases e)
  from Cons.prems e have "\<not> isRecording ev" "list_all (\<lambda>(t, ev). \<not> isRecording ev) evs"
    by simp_all
  moreover have "recordingBounded D (handle_p2 t ev (fireTimers t st))"
    using \<open>\<not> isRecording ev\<close> Cons.prems(2)
    by (intro recordingBounded_handle_p2 recordingBounded_fireTimers)
  ultimately show ?case
    using Cons.IH e by simp
qed

lemma typingBounded_expired:
  "typingBounded D st \<Longrightarrow> D \<le> t \<Longrightarrow> \<not> partnerTyping (fireTimers t st)"
  by (simp add: typingBounded_def fireTimers_typing expireTyping_def split: option.splits if_splits)

lemma recordingBounded_expired:
  "recordingBounded D st \<Longrightarrow> D \<le> t \<Longrightarrow> \<not> partnerRecording (fireTimers t st)"
  by (simp add: recordingBounded_def fireTimers_recording expireRecording_def
      split: option.splits if_splits)

lemma typing_set_p2:
  assumes "isMain conn st"
  shows "partnerTyping (handleIncomingData_p2 ok t0 rnd (ETyping True) conn st)"
    and "typingTimeoutRef (handleIncomingData_p2 ok t0 rnd (ETyping True) conn st) = Some (t0 + 4000)"
    and "partnerRecording (handleIncomingData_p2 ok t0 rnd (ERecording True) conn st)"
    and "recordingTimeoutRef (handleIncomingData_p2 ok t0 rnd (ERecording True) conn st)
           = Some (t0 + 4000)"
  using assms by simp_all

lemma typingHeld_fireTimers: "typingHeld st \<Longrightarrow> typingHeld (fireTimers t st)"
  by (simp add: typingHeld_def fireTimers_typing expireTyping_def)

lemma recordingHeld_fireTimers: "recordingHeld st \<Longrightarrow> recordingHeld (fireTimers t st)"
  by (simp add: recordingHeld_def fireTimers_recording expireRecording_def)

lemma typing_untouched_p1:
  assumes "d \<noteq> ETyping True" "d \<noteq> ETyping False"
    and "case d of EMessage p dt i \<Rightarrow> False | _ \<Rightarrow> True"
  shows "typingHeld st \<Longrightarrow> typingHeld (handleIncomingData_p1 ok now d conn st)"
  using assms
  by (cases d)
    (simp_all add: typingHeld_def Let_def emit_def enqueueFriendRequest_def saveFriend_def)

lemma recording_untouched_p1:
  assumes "d \<noteq> ERecording True" "d \<noteq> ERecording False"
  shows "recordingHeld st \<Longrightarrow> recordingHeld (handleIncomingData_p1 ok now d conn st)"
  using assms
  by (cases d)
    (simp_all add: recordingHeld_def Let_def emit_def enqueueFriendRequest_def saveFriend_def)

lemma typingHeld_handle_p1:
  "\<not> touchesTyping_p1 ev \<Longrightarrow> typingHeld st \<Longrightarrow> typingHeld (handle_p1 t ev st)"
proof (cases ev)
  case (Data ok rnd d conn)
  assume "\<not> touchesTyping_p1 ev" "typingHeld st"
  moreover from this Data have "d \<noteq> ETyping True" "d \<noteq> ETyping False"
    "case d of EMessage p dt i \<Rightarrow> False | _ \<Rightarrow> True"
    by (auto split: peerData.splits)
  ultimately show ?thesis
    using Data by (simp add: typing_untouched_p1)
next
  case (UserDisconnect ok)
  then show "\<not> touchesTyping_p1 ev \<Longrightarrow> ?thesis" by simp
qed

lemma recordingHeld_handle_p1:
  "\<not> touchesRecording_p1 ev \<Longrightarrow> recordingHeld st \<Longrightarrow> recordingHeld (handle_p1 t ev st)"
proof (cases ev)
  case (Data ok rnd d conn)
  assume "\<not> touchesRecording_p1 ev" "recordingHeld st"
  moreover from this Data have "d \<noteq> ERecording True" "d \<noteq> ERecording False" by auto
  ultimately show ?thesis
    using Data by (simp add: recording_untouched_p1)
next
  case (UserDisconnect ok)
  then show "\<not> touchesRecording_p1 ev \<Longrightarrow> ?thesis" by simp
qed

lemma typingHeld_run_p1:
  "list_all (\<lambda>(t, ev). \<not> touchesTyping_p1 ev) evs \<Longrightarrow> typingHeld st \<Longrightarrow>
   typingHeld (run_p1 st evs)"
proof (induction evs arbitrary: st)
  case Nil
  then show ?case by simp
next
  case (Cons e evs)
  obtain t ev where e: "e = (t, ev)" by (cases e)
  from Cons.prems e have n: "\<not> touchesTyping_p1 ev"
    and r: "list_all (\<lambda>(t, ev). \<not> touchesTyping_p1 ev) evs"
    by simp_all
  have "typingHeld (handle_p1 t ev (fireTimers t st))"
    using n Cons.prems(2) by (intro typingHeld_handle_p1 typingHeld_fireTimers)
  then show ?case
    using Cons.IH r e by simp
qed

lemma recordingHeld_run_p1:
  "list_all (\<lambda>(t, ev). \<not> touchesRecording_p1 ev) evs \<Longrightarrow> recordingHeld st \<Longrightarrow>
   recordingHeld (run_p1 st evs)"
proof (induction evs arbitrary: st)
  case Nil
  then show ?case by simp
next
  case (Cons e evs)
  obtain t ev where e: "e = (t, ev)" by (cases e)
  from Cons.prems e have n: "\<not> touchesRecording_p1 ev"
    and r: "list_all (\<lambda>(t, ev). \<not> touchesRecording_p1 ev) evs"
    by simp_all
  have "recordingHeld (handle_p1 t ev (fireTimers t st))"
    using n Cons.prems(2) by (intro recordingHeld_handle_p1 recordingHeld_fireTimers)
  then show ?case
    using Cons.IH r e by simp
qed

lemma no_expiry_p1:
  assumes "isMain conn st"
  shows "typingTimeoutRef st = None \<Longrightarrow>
         list_all (\<lambda>(t, ev). \<not> touchesTyping_p1 ev) evs \<Longrightarrow>
         partnerTyping
           (fireTimers t (run_p1 (handleIncomingData_p1 ok t0 (ETyping True) conn st) evs))"
    and "recordingTimeoutRef st = None \<Longrightarrow>
         list_all (\<lambda>(t, ev). \<not> touchesRecording_p1 ev) evs \<Longrightarrow>
         partnerRecording
           (fireTimers t (run_p1 (handleIncomingData_p1 ok t0 (ERecording True) conn st) evs))"
proof -
  assume "typingTimeoutRef st = None" and evs: "list_all (\<lambda>(t, ev). \<not> touchesTyping_p1 ev) evs"
  then have "typingHeld (handleIncomingData_p1 ok t0 (ETyping True) conn st)"
    using assms by (simp add: typingHeld_def)
  then have "typingHeld
      (fireTimers t (run_p1 (handleIncomingData_p1 ok t0 (ETyping True) conn st) evs))"
    using evs by (intro typingHeld_fireTimers typingHeld_run_p1)
  then show "partnerTyping
      (fireTimers t (run_p1 (handleIncomingData_p1 ok t0 (ETyping True) conn st) evs))"
    by (simp add: typingHeld_def)
next
  assume "recordingTimeoutRef st = None"
    and evs: "list_all (\<lambda>(t, ev). \<not> touchesRecording_p1 ev) evs"
  then have "recordingHeld (handleIncomingData_p1 ok t0 (ERecording True) conn st)"
    using assms by (simp add: recordingHeld_def)
  then have "recordingHeld
      (fireTimers t (run_p1 (handleIncomingData_p1 ok t0 (ERecording True) conn st) evs))"
    using evs by (intro recordingHeld_fireTimers recordingHeld_run_p1)
  then show "partnerRecording
      (fireTimers t (run_p1 (handleIncomingData_p1 ok t0 (ERecording True) conn st) evs))"
    by (simp add: recordingHeld_def)
qed

text \<open>
  Claim C8 fails on part_001: it arms no timer, so the indicator stays set
  however much time passes.
\<close>

theorem typing_p1_counterexample:
  "isMain mainConn connected
   \<and> partnerTyping (handleIncomingData_p1 True 1000 (ETyping True) mainConn connected)
   \<and> partnerTyping (fireTimers 5000
        (handleIncomingData_p1 True 1000 (ETyping True) mainConn connected))
   \<and> partnerTyping (fireTimers 5000
        (run_p1 connected [(1000, Data True ''0.25'' (ETyping True) mainConn)]))"
proof -
  have t: "typingTimeoutRef connected = None"
    by (simp add: connected_def initial_def)
  have m: "isMain mainConn connected" by (rule isMain_connected)
  have "fireTimers 1000 connected = connected"
    by (simp add: fireTimers_def expireTyping_def expireRecording_def fireClose_def
        fireConnectionTimeout_def Let_def connected_def initial_def)
  then have r: "run_p1 connected [(1000, Data True ''0.25'' (ETyping True) mainConn)]
      = handleIncomingData_p1 True 1000 (ETyping True) mainConn connected"
    by simp
  have "partnerTyping (fireTimers 5000
      (run_p1 (handleIncomingData_p1 True 1000 (ETyping True) mainConn connected) []))"
    by (rule no_expiry_p1(1) [OF m t]) simp
  then show ?thesis
    unfolding r using m by simp
qed

text \<open>
  Claim C8 as amended. In part_002, a \<^verbatim>\<open>typing\<close> envelope with payload true on the
  main connection sets the indicator and arms its expiry for 4000 ms later;
  whatever envelopes and user disconnects follow, if none of them is a further
  \<^verbatim>\<open>typing\<close> envelope the indicator is not set at any time from 4000 ms after
  the envelope on; the same holds for \<^verbatim>\<open>recording\<close>. In part_001 no expiry is
  armed: the indicator set by such an envelope is still set after any lapse of
  time, until an event clears it or sets it anew (for typing a \<^verbatim>\<open>typing\<close> or
  \<^verbatim>\<open>message\<close> envelope or the user leaving, for recording a \<^verbatim>\<open>recording\<close>
  envelope or the user leaving).
\<close>

theorem indicator_expiry:
  assumes "isMain conn st" and "t0 + 4000 \<le> t"
  shows "partnerTyping (handleIncomingData_p2 ok t0 rnd (ETyping True) conn st)
       \<and> partnerRecording (handleIncomingData_p2 ok t0 rnd (ERecording True) conn st)
       \<and> (list_all (\<lambda>(t, ev). \<not> isTyping ev) evs \<longrightarrow>
            \<not> partnerTyping
                (fireTimers t
                  (run_p2 (handleIncomingData_p2 ok t0 rnd (ETyping True) conn st) evs)))
       \<and> (list_all (\<lambda>(t, ev). \<not> isRecording ev) evs \<longrightarrow>
            \<not> partnerRecording
                (fireTimers t
                  (run_p2 (handleIncomingData_p2 ok t0 rnd (ERecording True) conn st) evs)))
       \<and> (typingTimeoutRef st = None \<and> list_all (\<lambda>(t, ev). \<not> touchesTyping_p1 ev) evs \<longrightarrow>
            partnerTyping
              (fireTimers t
                (run_p1 (handleIncomingData_p1 ok t0 (ETyping True) conn st) evs)))
       \<and> (recordingTimeoutRef st = None
            \<and> list_all (\<lambda>(t, ev). \<not> touchesRecording_p1 ev) evs \<longrightarrow>
            partnerRecording
              (fireTimers t
                (run_p1 (handleIncomingData_p1 ok t0 (ERecording True) conn st) evs)))"
proof -
  note s = typing_set_p2 [OF assms(1), of ok t0 rnd]
  have bt: "typingBounded (t0 + 4000) (handleIncomingData_p2 ok t0 rnd (ETyping True) conn st)"
    using assms(1) by (simp add: typingBounded_def)
  have br: "recordingBounded (t0 + 4000)
      (handleIncomingData_p2 ok t0 rnd (ERecording True) conn st)"
    using assms(1) by (simp add: recordingBounded_def)
  have ty: "\<not> partnerTyping
      (fireTimers t (run_p2 (handleIncomingData_p2 ok t0 rnd (ETyping True) conn st) evs))"
    if "list_all (\<lambda>(t, ev). \<not> isTyping ev) evs"
    by (rule typingBounded_expired [OF typingBounded_run_p2 [OF that bt] assms(2)])
  have re: "\<not> partnerRecording
      (fireTimers t (run_p2 (handleIncomingData_p2 ok t0 rnd (ERecording True) conn st) evs))"
    if "list_all (\<lambda>(t, ev). \<not> isRecording ev) evs"
    by (rule recordingBounded_expired [OF recordingBounded_run_p2 [OF that br] assms(2)])
  show ?thesis
    using s(1,3) ty re no_expiry_p1 [OF assms(1)] by blast
qed

theorem indicator_expiry_witness:
  "isMain mainConn connected \<and> (1000::nat) + 4000 \<le> 5000
   \<and> list_all (\<lambda>(t, ev). \<not> isTyping ev)
       [(2000::nat, Data True ''0.5'' (ERecording True) mainConn),
        (3000, Data True ''0.75'' (ESeen (Some ''m0'')) mainConn)]
   \<and> partnerTyping (handleIncomingData_p2 True 1000 ''0.25'' (ETyping True) mainConn connected)
   \<and> \<not> partnerTyping
        (fireTimers 5000
          (run_p2 (handleIncomingData_p2 True 1000 ''0.25'' (ETyping True) mainConn connected)
            [(2000::nat, Data True ''0.5'' (ERecording True) mainConn),
             (3000, Data True ''0.75'' (ESeen (Some ''m0'')) mainConn)]))
   \<and> typingTimeoutRef connected = None
   \<and> list_all (\<lambda>(t, ev). \<not> touchesTyping_p1 ev)
       [(2000::nat, Data True ''0.5'' (ERecording True) mainConn),
        (3000, Data True ''0.75'' (ESeen (Some ''m0'')) mainConn)]
   \<and> partnerTyping
        (fireTimers 5000
          (run_p1 (handleIncomingData_p1 True 1000 (ETyping True) mainConn connected)
            [(2000, Data True ''0.5'' (ERecording True) mainConn),
             (3000, Data True ''0.75'' (ESeen (Some ''m0'')) mainConn)]))"
proof -
  have h1: "isMain mainConn connected" by (rule isMain_connected)
  have h2: "(1000::nat) + 4000 \<le> 5000" by simp
  have h3: "list_all (\<lambda>(t, ev). \<not> isTyping ev)
       [(2000::nat, Data True ''0.5'' (ERecording True) mainConn),
        (3000, Data True ''0.75'' (ESeen (Some ''m0'')) mainConn)]"
    by simp
  have h4: "typingTimeoutRef connected = None"
    by (simp add: connected_def initial_def)
  have h5: "list_all (\<lambda>(t, ev). \<not> touchesTyping_p1 ev)
       [(2000::nat, Data True ''0.5'' (ERecording True) mainConn),
        (3000, Data True ''0.75'' (ESeen (Some ''m0'')) mainConn)]"
    by simp
  note main = indicator_expiry [OF h1 h2, of True "''0.25''"
      "[(2000::nat, Data True ''0.5'' (ERecording True) mainConn),
        (3000, Data True ''0.75'' (ESeen (Some ''m0'')) mainConn)]"]
  show ?thesis
    using main h1 h2 h3 h4 h5 by blast
qed

end
